theory Spec2Isabelle
  imports Complex_Main "HOL-Library.Word"
begin

section \<open>JavaScript strings\<close>

text \<open>
  A JavaScript string is a sequence of UTF-16 code units. It is modelled as a HOL
  \<open>string\<close>; a character stands for the code unit of the same number, so the model covers
  the strings whose code units are below 256. The functions below follow ECMAScript for
  integer arguments: \<open>substring\<close> clamps both ends to the string and swaps them when they
  are out of order, \<open>substr\<close> counts a negative start from the end and clamps the length.
\<close>

definition js_clamp :: "string \<Rightarrow> int \<Rightarrow> int" where
  "js_clamp s i = min (max i 0) (int (length s))"

definition js_substring2 :: "string \<Rightarrow> int \<Rightarrow> int \<Rightarrow> string" where
  "js_substring2 s start end =
     (let a = js_clamp s start; b = js_clamp s end; lo = min a b; hi = max a b
      in take (nat (hi - lo)) (drop (nat lo) s))"

definition js_substring1 :: "string \<Rightarrow> int \<Rightarrow> string" where
  "js_substring1 s start = js_substring2 s start (int (length s))"

definition js_substr_start :: "string \<Rightarrow> int \<Rightarrow> int" where
  "js_substr_start s start =
     (if start < 0 then max (int (length s) + start) 0 else min start (int (length s)))"

definition js_substr2 :: "string \<Rightarrow> int \<Rightarrow> int \<Rightarrow> string" where
  "js_substr2 s start len =
     (let st = js_substr_start s start; l = min (max len 0) (int (length s) - st)
      in take (nat l) (drop (nat st) s))"

definition js_substr1 :: "string \<Rightarrow> int \<Rightarrow> string" where
  "js_substr1 s start = drop (nat (js_substr_start s start)) s"

text \<open>
  \<open>String.prototype.replace\<close> with a string pattern replaces the first occurrence only
  (the empty pattern occurs at position 0). The only replacement text the source uses is
  \<open>'_'\<close>, which holds no \<open>$\<close> pattern, so the replacement is inserted as it is.
\<close>

fun js_replace :: "string \<Rightarrow> string \<Rightarrow> string \<Rightarrow> string" where
  "js_replace pat rep [] = (if pat = [] then rep else [])"
| "js_replace pat rep (c # cs) =
     (if take (length pat) (c # cs) = pat then rep @ drop (length pat) (c # cs)
      else c # js_replace pat rep cs)"

text \<open>The class \<open>\s\<close> of a JavaScript regular expression, on code units below 256.\<close>

definition js_isWhitespace :: "char \<Rightarrow> bool" where
  "js_isWhitespace c \<longleftrightarrow> (of_char c :: nat) \<in> {9, 10, 11, 12, 13, 32, 160}"

definition test_whitespace_plus :: "string \<Rightarrow> bool" where
  \<comment> \<open>\<open>/^\s+$/.test(text)\<close>\<close>
  "test_whitespace_plus text \<longleftrightarrow> text \<noteq> [] \<and> list_all js_isWhitespace text"

definition test_whitespace_star :: "string \<Rightarrow> bool" where
  \<comment> \<open>\<open>/^\s*$/.test(text)\<close>\<close>
  "test_whitespace_star text \<longleftrightarrow> list_all js_isWhitespace text"

text \<open>
  The bitwise operators of JavaScript work on the 32-bit integer of each operand; only
  whether the result is zero is read by the source.
\<close>

definition js_bitand :: "int \<Rightarrow> int \<Rightarrow> 32 word" where
  "js_bitand a b = and (word_of_int a) (word_of_int b)"

definition js_bitor :: "int \<Rightarrow> int \<Rightarrow> 32 word" where
  "js_bitor a b = or (word_of_int a) (word_of_int b)"

section \<open>The data of the indentation engine\<close>

datatype StandardTokenType = Other | Comment | String | RegEx

datatype IndentAction = None_Action | Indent | IndentOutdent | Outdent

text \<open>
  \<open>LineTokens\<close> and \<open>ScopedLineTokens\<close> are objects of the editor; the engine reads them
  through their methods only. Each is a record of its methods; \<open>ITokens\<close> holds the
  methods both classes share, which is all that a parameter of type
  \<open>LineTokens | ScopedLineTokens\<close> may use.
\<close>

record ITokens =
  getCount :: nat
  getStandardTokenType :: "nat \<Rightarrow> StandardTokenType"
  getStartOffset :: "nat \<Rightarrow> int"
  getEndOffset :: "nat \<Rightarrow> int"
  tokens_getLineContent :: string

record LineTokens = ITokens +
  tokens_getLanguageId :: "nat \<Rightarrow> string"

record ScopedLineTokens = ITokens +
  languageId :: string
  firstCharOffset :: int

record IVirtualModel =
  tokenization_getLineTokens :: "int \<Rightarrow> LineTokens"
  tokenization_getLanguageId :: string
  tokenization_getLanguageIdAtPosition :: "int \<Rightarrow> int \<Rightarrow> string"
  getLineContent :: "int \<Rightarrow> string"

text \<open>
  An \<open>ITextModel\<close> is passed where an \<open>IVirtualModel\<close> is expected, so it extends that
  record. \<open>forceTokenization\<close> only makes the tokens of a line available; the tokens the
  model answers with are the tokens after it.
\<close>

record ITextModel = IVirtualModel +
  getLanguageId :: string
  getLanguageIdAtPosition :: "int \<Rightarrow> int \<Rightarrow> string"
  getLineCount :: int

record IIndentConverter =
  shiftIndent :: "string \<Rightarrow> string"
  unshiftIndent :: "string \<Rightarrow> string"

record IndentRulesSupport =
  shouldIncrease :: "string \<Rightarrow> bool"
  shouldDecrease :: "string \<Rightarrow> bool"
  shouldIndentNextLine :: "string \<Rightarrow> bool"
  shouldIgnore :: "string \<Rightarrow> bool"
  rules_getIndentMetadata :: "string \<Rightarrow> int"

record RichEditBracket =
  bracket_open :: "string list"
  bracket_close :: "string list"

record EnterAction =
  indentAction :: IndentAction
  appendText :: "string option"
  removeText :: "int option"

text \<open>
  What \<open>languageConfigurationService.getLanguageConfiguration(languageId)\<close> answers:
  \<open>brackets\<close> is the list \<open>brackets.brackets\<close> when the language has brackets. The
  service answers a configuration for every language id, as its type says, so the test
  \<open>!richEditSupport\<close> of \<open>getGoodIndentForLine\<close> never succeeds and has no branch in the
  model. The strategy \<open>autoIndent\<close> is a number of the enum \<open>EditorAutoIndentStrategy\<close>.
\<close>

record LanguageConfiguration =
  indentRulesSupport :: "IndentRulesSupport option"
  brackets :: "RichEditBracket list option"
  onEnter :: "int \<Rightarrow> string \<Rightarrow> string \<Rightarrow> string \<Rightarrow> EnterAction option"

type_synonym ILanguageConfigurationService = "string \<Rightarrow> LanguageConfiguration"

record Range =
  startLineNumber :: int
  startColumn :: int
  endLineNumber :: int
  endColumn :: int

text \<open>
  The engine imports constants and helpers that are declared in other files of the
  editor. They are parameters of the model, so that every theorem holds whatever they
  are: the enum value \<open>EditorAutoIndentStrategy.Full\<close>, the masks of \<open>IndentConsts\<close>,
  \<open>strings.getLeadingWhitespace\<close>, \<open>createScopedLineTokens\<close>, \<open>getScopedLineTokens\<close>
  and \<open>Range.isEmpty\<close>.
\<close>

record indent_host =
  Full :: int
  INCREASE_MASK :: int
  DECREASE_MASK :: int
  INDENT_NEXTLINE_MASK :: int
  getLeadingWhitespace :: "string \<Rightarrow> string"
  createScopedLineTokens :: "LineTokens \<Rightarrow> int \<Rightarrow> ScopedLineTokens"
  getScopedLineTokens :: "ITextModel \<Rightarrow> int \<Rightarrow> int \<Rightarrow> ScopedLineTokens"
  isEmpty :: "Range \<Rightarrow> bool"

record InheritIndent =
  indentation :: string
  action :: "IndentAction option"
  line :: "int option"

record EnterIndent =
  beforeEnter :: string
  afterEnter :: string

section \<open>autoIndent.ts\<close>

subsection \<open>getStrippedLineForLineAndTokens\<close>

definition replaceBrackets :: "string list \<Rightarrow> string \<Rightarrow> string" where
  \<comment> \<open>\<open>bs.forEach((bracket) => { modifiedString = modifiedString.replace(bracket, '_'); })\<close>\<close>
  "replaceBrackets bs modifiedString = foldl (\<lambda>m bracket. js_replace bracket ''_'' m) modifiedString bs"

definition stripToken ::
  "RichEditBracket list option \<Rightarrow> string \<Rightarrow> 'a ITokens_scheme \<Rightarrow> string \<times> int \<Rightarrow> nat \<Rightarrow> string \<times> int" where
  \<comment> \<open>one pass of the loop body, on the state \<open>(res, offset)\<close>\<close>
  "stripToken brs lineStr tokens st i =
     (let res = fst st; offset = snd st;
          standardTokenType = getStandardTokenType tokens i;
          startOffset = getStartOffset tokens i;
          endOffset = getEndOffset tokens i
      in if standardTokenType = Comment then
           (js_substr2 res 0 (offset + startOffset) @ js_substr1 res (offset + endOffset),
            offset + (startOffset - endOffset))
         else if standardTokenType = String \<or> standardTokenType = RegEx then
           (let substringOfToken = js_substring2 lineStr startOffset endOffset;
                modifiedString =
                  (case brs of
                     None \<Rightarrow> substringOfToken
                   | Some bl \<Rightarrow>
                       replaceBrackets (concat (map bracket_close bl))
                         (replaceBrackets (concat (map bracket_open bl)) substringOfToken));
                offset' = offset + (int (length substringOfToken) - int (length modifiedString))
            in (js_substring2 res 0 (offset' + startOffset) @ modifiedString
                  @ js_substring1 res (offset' + endOffset),
                offset'))
         else (res, offset))"

definition getStrippedLineForLineAndTokens ::
  "ILanguageConfigurationService \<Rightarrow> string \<Rightarrow> string \<Rightarrow> 'a ITokens_scheme \<Rightarrow> string" where
  "getStrippedLineForLineAndTokens languageConfigurationService langId lineStr tokens =
     fst (foldl (stripToken (brackets (languageConfigurationService langId)) lineStr tokens)
            (lineStr, 0) [0..<getCount tokens])"

definition getStrippedLine ::
  "ILanguageConfigurationService \<Rightarrow> 'a IVirtualModel_scheme \<Rightarrow> int \<Rightarrow> string" where
  "getStrippedLine languageConfigurationService model lineNumber =
     getStrippedLineForLineAndTokens languageConfigurationService
       (tokenization_getLanguageId model) (getLineContent model lineNumber)
       (tokenization_getLineTokens model lineNumber)"

subsection \<open>getPrecedingValidLine\<close>

definition entirelyIn :: "StandardTokenType \<Rightarrow> 'a ITokens_scheme \<Rightarrow> bool" where
  \<comment> \<open>the three loops over the tokens of a line: every token has the given type\<close>
  "entirelyIn ty tokens \<longleftrightarrow>
     list_all (\<lambda>i. getStandardTokenType tokens i = ty) [0..<getCount tokens]"

function getPrecedingValidLine_loop ::
  "'a IVirtualModel_scheme \<Rightarrow> IndentRulesSupport \<Rightarrow> string \<Rightarrow> int \<Rightarrow> int \<Rightarrow> int" where
  "getPrecedingValidLine_loop model rules langId lastLineNumber resultLineNumber =
     (if lastLineNumber \<ge> 1 then
        (if tokenization_getLanguageIdAtPosition model lastLineNumber 0 \<noteq> langId
         then resultLineNumber
         else if shouldIgnore rules (getLineContent model lastLineNumber)
                 \<or> test_whitespace_plus (getLineContent model lastLineNumber)
                 \<or> getLineContent model lastLineNumber = []
                 \<or> entirelyIn Comment (tokenization_getLineTokens model lastLineNumber)
                 \<or> entirelyIn String (tokenization_getLineTokens model lastLineNumber)
                 \<or> entirelyIn RegEx (tokenization_getLineTokens model lastLineNumber)
         then getPrecedingValidLine_loop model rules langId (lastLineNumber - 1) lastLineNumber
         else lastLineNumber)
      else - 1)"
  by pat_completeness auto
termination
  by (relation "measure (\<lambda>(model, rules, langId, lastLineNumber, resultLineNumber). nat lastLineNumber)")
     auto

definition getPrecedingValidLine ::
  "'a IVirtualModel_scheme \<Rightarrow> int \<Rightarrow> IndentRulesSupport \<Rightarrow> int" where
  "getPrecedingValidLine model lineNumber rules =
     (if lineNumber > 1 then
        getPrecedingValidLine_loop model rules
          (tokenization_getLanguageIdAtPosition model lineNumber 0) (lineNumber - 1) (- 1)
      else - 1)"

subsection \<open>getInheritIndentForLine\<close>

function firstNonBlankLine_loop :: "'a IVirtualModel_scheme \<Rightarrow> int \<Rightarrow> bool" where
  \<comment> \<open>the loop "use no indent if this is the first non-blank line"; true when it returns\<close>
  "firstNonBlankLine_loop model priorLineNumber =
     (if priorLineNumber > 0 then
        (if getLineContent model priorLineNumber \<noteq> [] then False
         else if priorLineNumber = 1 then True
         else firstNonBlankLine_loop model (priorLineNumber - 1))
      else False)"
  by pat_completeness auto
termination
  by (relation "measure (\<lambda>(model, priorLineNumber). nat priorLineNumber)") auto

function stopLine_loop ::
  "ILanguageConfigurationService \<Rightarrow> 'a IVirtualModel_scheme \<Rightarrow> IndentRulesSupport \<Rightarrow> int \<Rightarrow> int" where
  \<comment> \<open>\<open>for (let i = previousLine - 1; i > 0; i--)\<close>: the value of \<open>stopLine\<close> after the loop\<close>
  "stopLine_loop lcs model rules i =
     (if i > 0 then
        (if shouldIndentNextLine rules (getStrippedLine lcs model i)
         then stopLine_loop lcs model rules (i - 1)
         else i)
      else 0)"
  by pat_completeness auto
termination
  by (relation "measure (\<lambda>(lcs, model, rules, i). nat i)") auto

function stopLine_loop_j ::
  "ILanguageConfigurationService \<Rightarrow> 'a IVirtualModel_scheme \<Rightarrow> IndentRulesSupport \<Rightarrow> int \<Rightarrow> int \<Rightarrow> int" where
  \<comment> \<open>\<open>for (let j = i - 1; j > 0; j--)\<close>, whose body strips line \<open>i\<close>, as the source has it\<close>
  "stopLine_loop_j lcs model rules i j =
     (if j > 0 then
        (if shouldIndentNextLine rules (getStrippedLine lcs model i)
         then stopLine_loop_j lcs model rules i (j - 1)
         else j)
      else 0)"
  by pat_completeness auto
termination
  by (relation "measure (\<lambda>(lcs, model, rules, i, j). nat j)") auto

function searchNotTemporary_loop ::
  "indent_host \<Rightarrow> ILanguageConfigurationService \<Rightarrow> 'a IVirtualModel_scheme \<Rightarrow> IndentRulesSupport
     \<Rightarrow> int \<Rightarrow> InheritIndent" where
  \<comment> \<open>\<open>for (let i = precedingUnIgnoredLine; i > 0; i--)\<close> and the return after it\<close>
  "searchNotTemporary_loop h lcs model rules i =
     (if i > 0 then
        (if shouldIncrease rules (getStrippedLine lcs model i) then
           \<lparr>indentation = getLeadingWhitespace h (getStrippedLine lcs model i),
            action = Some Indent, line = Some i\<rparr>
         else if shouldIndentNextLine rules (getStrippedLine lcs model i) then
           \<lparr>indentation = getLeadingWhitespace h
              (getStrippedLine lcs model (stopLine_loop_j lcs model rules i (i - 1) + 1)),
            action = None, line = Some (stopLine_loop_j lcs model rules i (i - 1) + 1)\<rparr>
         else if shouldDecrease rules (getStrippedLine lcs model i) then
           \<lparr>indentation = getLeadingWhitespace h (getStrippedLine lcs model i),
            action = None, line = Some i\<rparr>
         else searchNotTemporary_loop h lcs model rules (i - 1))
      else \<lparr>indentation = getLeadingWhitespace h (getLineContent model 1),
            action = None, line = Some 1\<rparr>)"
  by pat_completeness auto
termination
  by (relation "measure (\<lambda>(h, lcs, model, rules, i). nat i)") auto

definition getInheritIndentForLine ::
  "indent_host \<Rightarrow> int \<Rightarrow> 'a IVirtualModel_scheme \<Rightarrow> int \<Rightarrow> bool \<Rightarrow> ILanguageConfigurationService
     \<Rightarrow> InheritIndent option" where
  "getInheritIndentForLine h autoIndent model lineNumber honorIntentialIndent lcs =
     (if autoIndent < Full h then None
      else case indentRulesSupport (lcs (tokenization_getLanguageId model)) of
        None \<Rightarrow> None
      | Some rules \<Rightarrow>
          if lineNumber \<le> 1 then Some \<lparr>indentation = [], action = None, line = None\<rparr>
          else if firstNonBlankLine_loop model (lineNumber - 1)
          then Some \<lparr>indentation = [], action = None, line = None\<rparr>
          else
            let precedingUnIgnoredLine = getPrecedingValidLine model lineNumber rules in
            if precedingUnIgnoredLine < 0 then None
            else if precedingUnIgnoredLine < 1
            then Some \<lparr>indentation = [], action = None, line = None\<rparr>
            else
              let precedingUnIgnoredLineContent = getStrippedLine lcs model precedingUnIgnoredLine in
              if shouldIncrease rules precedingUnIgnoredLineContent
                 \<or> shouldIndentNextLine rules precedingUnIgnoredLineContent
              then Some \<lparr>indentation = getLeadingWhitespace h precedingUnIgnoredLineContent,
                         action = Some Indent, line = Some precedingUnIgnoredLine\<rparr>
              else if shouldDecrease rules precedingUnIgnoredLineContent
              then Some \<lparr>indentation = getLeadingWhitespace h precedingUnIgnoredLineContent,
                         action = None, line = Some precedingUnIgnoredLine\<rparr>
              else if precedingUnIgnoredLine = 1
              then Some \<lparr>indentation =
                           getLeadingWhitespace h (getLineContent model precedingUnIgnoredLine),
                         action = None, line = Some precedingUnIgnoredLine\<rparr>
              else
                let previousLine = precedingUnIgnoredLine - 1;
                    previousLineIndentMetadata =
                      rules_getIndentMetadata rules (getLineContent model previousLine)
                in
                if js_bitand previousLineIndentMetadata
                       (sint (js_bitor (INCREASE_MASK h) (DECREASE_MASK h))) = 0
                   \<and> js_bitand previousLineIndentMetadata (INDENT_NEXTLINE_MASK h) \<noteq> 0
                then
                  let stopLine = stopLine_loop lcs model rules (previousLine - 1) in
                  Some \<lparr>indentation = getLeadingWhitespace h (getLineContent model (stopLine + 1)),
                        action = None, line = Some (stopLine + 1)\<rparr>
                else if honorIntentialIndent
                then Some \<lparr>indentation =
                             getLeadingWhitespace h (getLineContent model precedingUnIgnoredLine),
                           action = None, line = Some precedingUnIgnoredLine\<rparr>
                else Some (searchNotTemporary_loop h lcs model rules precedingUnIgnoredLine))"

subsection \<open>getGoodIndentForLine\<close>

function shouldApplyEnterRules_loop ::
  "ILanguageConfigurationService \<Rightarrow> 'a IVirtualModel_scheme \<Rightarrow> int \<Rightarrow> int \<Rightarrow> bool" where
  \<comment> \<open>\<open>for (let inBetweenLine = inheritLine; inBetweenLine < lineNumber - 1; inBetweenLine++)\<close>\<close>
  "shouldApplyEnterRules_loop lcs model lineNumber inBetweenLine =
     (if inBetweenLine < lineNumber - 1 then
        (if \<not> test_whitespace_star (getStrippedLine lcs model inBetweenLine) then False
         else shouldApplyEnterRules_loop lcs model lineNumber (inBetweenLine + 1))
      else True)"
  by pat_completeness auto
termination
  by (relation "measure (\<lambda>(lcs, model, lineNumber, inBetweenLine). nat (lineNumber - 1 - inBetweenLine))")
     auto

definition applyEnterResult ::
  "indent_host \<Rightarrow> IIndentConverter \<Rightarrow> IndentRulesSupport \<Rightarrow> string \<Rightarrow> string \<Rightarrow> EnterAction \<Rightarrow> string" where
  \<comment> \<open>the body of \<open>if (enterResult) { ... }\<close>\<close>
  "applyEnterResult h indentConverter rules inheritedLineContent lineContent enterResult =
     (let indentation0 = getLeadingWhitespace h inheritedLineContent;
          indentation1 =
            (case removeText enterResult of
               None \<Rightarrow> indentation0
             | Some r \<Rightarrow> if r = 0 then indentation0
                         else js_substring2 indentation0 0 (int (length indentation0) - r));
          indentation2 =
            (if indentAction enterResult = Indent \<or> indentAction enterResult = IndentOutdent
             then shiftIndent indentConverter indentation1
             else if indentAction enterResult = Outdent
             then unshiftIndent indentConverter indentation1
             else indentation1);
          indentation3 =
            (if shouldDecrease rules lineContent then unshiftIndent indentConverter indentation2
             else indentation2);
          indentation4 =
            (case appendText enterResult of
               None \<Rightarrow> indentation3
             | Some t \<Rightarrow> if t = [] then indentation3 else indentation3 @ t)
      in getLeadingWhitespace h indentation4)"

definition getGoodIndentForLine ::
  "indent_host \<Rightarrow> int \<Rightarrow> 'a IVirtualModel_scheme \<Rightarrow> string \<Rightarrow> int \<Rightarrow> IIndentConverter
     \<Rightarrow> ILanguageConfigurationService \<Rightarrow> string option" where
  "getGoodIndentForLine h autoIndent virtualModel langId lineNumber indentConverter lcs =
     (if autoIndent < Full h then None
      else case indentRulesSupport (lcs langId) of
        None \<Rightarrow> None
      | Some rules \<Rightarrow>
          let lineContent = getStrippedLine lcs virtualModel lineNumber in
          (case getInheritIndentForLine h autoIndent virtualModel lineNumber True lcs of
             None \<Rightarrow> None
           | Some indent \<Rightarrow>
               let viaEnterRules =
                     (case line indent of
                        None \<Rightarrow> None
                      | Some inheritLine \<Rightarrow>
                          if shouldApplyEnterRules_loop lcs virtualModel lineNumber inheritLine
                          then
                            (case onEnter (lcs langId) autoIndent []
                                    (getStrippedLine lcs virtualModel inheritLine) [] of
                               None \<Rightarrow> None
                             | Some enterResult \<Rightarrow>
                                 Some (applyEnterResult h indentConverter rules
                                         (getStrippedLine lcs virtualModel inheritLine)
                                         lineContent enterResult))
                          else None)
               in (case viaEnterRules of
                     Some r \<Rightarrow> Some r
                   | None \<Rightarrow>
                       (if shouldDecrease rules lineContent then
                          (if action indent = Some Indent then Some (indentation indent)
                           else Some (unshiftIndent indentConverter (indentation indent)))
                        else
                          (if action indent = Some Indent
                           then Some (shiftIndent indentConverter (indentation indent))
                           else Some (indentation indent))))))"

subsection \<open>getIndentForEnter\<close>

definition enterScopedLineTokens :: "indent_host \<Rightarrow> ITextModel \<Rightarrow> Range \<Rightarrow> ScopedLineTokens" where
  \<comment> \<open>\<open>createScopedLineTokens(lineTokens, range.startColumn - 1)\<close>\<close>
  "enterScopedLineTokens h model rng =
     createScopedLineTokens h (tokenization_getLineTokens model (startLineNumber rng))
       (startColumn rng - 1)"

definition embeddedLanguage :: "indent_host \<Rightarrow> ITextModel \<Rightarrow> Range \<Rightarrow> bool" where
  "embeddedLanguage h model rng \<longleftrightarrow>
     firstCharOffset (enterScopedLineTokens h model rng) > 0
     \<and> tokens_getLanguageId (tokenization_getLineTokens model (startLineNumber rng)) 0
         \<noteq> languageId (enterScopedLineTokens h model rng)"

definition beforeEnterText :: "indent_host \<Rightarrow> ITextModel \<Rightarrow> Range \<Rightarrow> string" where
  "beforeEnterText h model rng =
     (let lineTokens = tokenization_getLineTokens model (startLineNumber rng);
          scopedLineTokens = enterScopedLineTokens h model rng
      in if embeddedLanguage h model rng
         then js_substr2 (tokens_getLineContent scopedLineTokens) 0
                (startColumn rng - 1 - firstCharOffset scopedLineTokens)
         else js_substring2 (tokens_getLineContent lineTokens) 0 (startColumn rng - 1))"

definition afterEnterText :: "indent_host \<Rightarrow> ITextModel \<Rightarrow> Range \<Rightarrow> string" where
  "afterEnterText h model rng =
     (let scopedLineTokens = enterScopedLineTokens h model rng
      in if isEmpty h rng
         then js_substr1 (tokens_getLineContent scopedLineTokens)
                (startColumn rng - 1 - firstCharOffset scopedLineTokens)
         else js_substr1
                (tokens_getLineContent
                   (getScopedLineTokens h model (endLineNumber rng) (endColumn rng)))
                (endColumn rng - 1 - firstCharOffset scopedLineTokens))"

definition enterVirtualModel :: "ITextModel \<Rightarrow> Range \<Rightarrow> string \<Rightarrow> IVirtualModel" where
  "enterVirtualModel model rng beforeEnterResult =
     \<lparr>tokenization_getLineTokens = (\<lambda>lineNumber. tokenization_getLineTokens model lineNumber),
      tokenization_getLanguageId = getLanguageId model,
      tokenization_getLanguageIdAtPosition =
        (\<lambda>lineNumber column. getLanguageIdAtPosition model lineNumber column),
      getLineContent =
        (\<lambda>lineNumber. if lineNumber = startLineNumber rng then beforeEnterResult
                       else getLineContent model lineNumber)\<rparr>"

definition getIndentForEnter ::
  "indent_host \<Rightarrow> int \<Rightarrow> ITextModel \<Rightarrow> Range \<Rightarrow> IIndentConverter \<Rightarrow> ILanguageConfigurationService
     \<Rightarrow> EnterIndent option" where
  "getIndentForEnter h autoIndent model rng indentConverter lcs =
     (if autoIndent < Full h then None
      else
        (case indentRulesSupport (lcs (languageId (enterScopedLineTokens h model rng))) of
           None \<Rightarrow> None
         | Some rules \<Rightarrow>
             (let lineTokens = tokenization_getLineTokens model (startLineNumber rng);
                  beforeEnterIndent = getLeadingWhitespace h (beforeEnterText h model rng);
                  virtualModel = enterVirtualModel model rng (beforeEnterText h model rng);
                  currentLineIndent = getLeadingWhitespace h (tokens_getLineContent lineTokens)
              in (case getInheritIndentForLine h autoIndent virtualModel
                         (startLineNumber rng + 1) True lcs of
                    None \<Rightarrow>
                      Some \<lparr>beforeEnter =
                              (if embeddedLanguage h model rng then currentLineIndent
                               else beforeEnterIndent),
                            afterEnter =
                              (if embeddedLanguage h model rng then currentLineIndent
                               else beforeEnterIndent)\<rparr>
                  | Some afterEnterAction \<Rightarrow>
                      (let afterEnterIndent0 =
                             (if embeddedLanguage h model rng then currentLineIndent
                              else indentation afterEnterAction);
                           afterEnterIndent1 =
                             (if action afterEnterAction = Some Indent
                              then shiftIndent indentConverter afterEnterIndent0
                              else afterEnterIndent0);
                           afterEnterIndent2 =
                             (if shouldDecrease rules (afterEnterText h model rng)
                              then unshiftIndent indentConverter afterEnterIndent1
                              else afterEnterIndent1)
                       in Some \<lparr>beforeEnter =
                                  (if embeddedLanguage h model rng then currentLineIndent
                                   else beforeEnterIndent),
                                afterEnter = afterEnterIndent2\<rparr>)))))"

subsection \<open>getIndentActionForType\<close>

definition beforeTypeText :: "indent_host \<Rightarrow> ITextModel \<Rightarrow> Range \<Rightarrow> string" where
  "beforeTypeText h model rng =
     (let scopedLineTokens = getScopedLineTokens h model (startLineNumber rng) (startColumn rng)
      in js_substr2 (tokens_getLineContent scopedLineTokens) 0
           (startColumn rng - 1 - firstCharOffset scopedLineTokens))"

definition afterTypeText :: "indent_host \<Rightarrow> ITextModel \<Rightarrow> Range \<Rightarrow> string" where
  "afterTypeText h model rng =
     (let scopedLineTokens = getScopedLineTokens h model (startLineNumber rng) (startColumn rng)
      in if isEmpty h rng
         then js_substr1 (tokens_getLineContent scopedLineTokens)
                (startColumn rng - 1 - firstCharOffset scopedLineTokens)
         else js_substr1
                (tokens_getLineContent
                   (getScopedLineTokens h model (endLineNumber rng) (endColumn rng)))
                (endColumn rng - 1 - firstCharOffset scopedLineTokens))"

definition getIndentActionForType ::
  "indent_host \<Rightarrow> int \<Rightarrow> ITextModel \<Rightarrow> Range \<Rightarrow> string \<Rightarrow> IIndentConverter
     \<Rightarrow> ILanguageConfigurationService \<Rightarrow> string option" where
  "getIndentActionForType h autoIndent model rng ch indentConverter lcs =
     (if autoIndent < Full h then None
      else
        let scopedLineTokens =
              getScopedLineTokens h model (startLineNumber rng) (startColumn rng)
        in if firstCharOffset scopedLineTokens \<noteq> 0 then None
           else case indentRulesSupport (lcs (languageId scopedLineTokens)) of
             None \<Rightarrow> None
           | Some rules \<Rightarrow>
               let fullText = beforeTypeText h model rng @ afterTypeText h model rng;
                   fullTextWithCharacter =
                     beforeTypeText h model rng @ ch @ afterTypeText h model rng
               in if \<not> shouldDecrease rules fullText \<and> shouldDecrease rules fullTextWithCharacter
                  then
                    (case getInheritIndentForLine h autoIndent model (startLineNumber rng)
                            False lcs of
                       None \<Rightarrow> None
                     | Some r \<Rightarrow>
                         if action r \<noteq> Some Indent
                         then Some (unshiftIndent indentConverter (indentation r))
                         else Some (indentation r))
                  else None)"

text \<open>
  The text around the cursor as the specification reads it: the scoped text before the
  start of the range, the inserted text, and the scoped text after the end of the range,
  each cut at the offset of its own scope.
\<close>

definition textAroundCursorAsClaimed :: "indent_host \<Rightarrow> ITextModel \<Rightarrow> Range \<Rightarrow> string \<Rightarrow> string" where
  "textAroundCursorAsClaimed h model rng inserted =
     (let startScope = getScopedLineTokens h model (startLineNumber rng) (startColumn rng);
          endScope = getScopedLineTokens h model (endLineNumber rng) (endColumn rng)
      in js_substr2 (tokens_getLineContent startScope) 0
           (startColumn rng - 1 - firstCharOffset startScope)
         @ inserted
         @ js_substr1 (tokens_getLineContent endScope)
             (endColumn rng - 1 - firstCharOffset endScope))"

subsection \<open>getIndentMetadata\<close>

definition getIndentMetadata ::
  "ITextModel \<Rightarrow> int \<Rightarrow> ILanguageConfigurationService \<Rightarrow> int option" where
  "getIndentMetadata model lineNumber lcs =
     (case indentRulesSupport (lcs (getLanguageId model)) of
        None \<Rightarrow> None
      | Some rules \<Rightarrow>
          if lineNumber < 1 \<or> lineNumber > getLineCount model then None
          else Some (rules_getIndentMetadata rules (getLineContent model lineNumber)))"

subsection \<open>The stripped line as the specification describes it\<close>

text \<open>
  The specification describes the stripped line token by token: the text of a Comment
  token is removed; in the text of a String or RegEx token the first occurrence of each
  configured open-bracket text, and then of each close-bracket text, is replaced by
  \<open>'_'\<close>; all other characters of the line stay, in their order. \<open>claimedFrom\<close> goes
  through the tokens from a position of the line and keeps the text between them.
\<close>

definition claimedPiece ::
  "RichEditBracket list option \<Rightarrow> string \<Rightarrow> 'a ITokens_scheme \<Rightarrow> nat \<Rightarrow> string" where
  "claimedPiece brs lineStr tokens i =
     (let text = js_substring2 lineStr (getStartOffset tokens i) (getEndOffset tokens i)
      in if getStandardTokenType tokens i = Comment then []
         else if getStandardTokenType tokens i = String \<or> getStandardTokenType tokens i = RegEx
         then (case brs of
                 None \<Rightarrow> text
               | Some bl \<Rightarrow>
                   replaceBrackets (concat (map bracket_close bl))
                     (replaceBrackets (concat (map bracket_open bl)) text))
         else text)"

fun claimedFrom ::
  "RichEditBracket list option \<Rightarrow> string \<Rightarrow> 'a ITokens_scheme \<Rightarrow> int \<Rightarrow> nat list \<Rightarrow> string" where
  "claimedFrom brs lineStr tokens pos [] = js_substring1 lineStr pos"
| "claimedFrom brs lineStr tokens pos (i # is) =
     js_substring2 lineStr pos (getStartOffset tokens i)
     @ claimedPiece brs lineStr tokens i
     @ claimedFrom brs lineStr tokens (getEndOffset tokens i) is"

definition strippedLineAsClaimed ::
  "ILanguageConfigurationService \<Rightarrow> string \<Rightarrow> string \<Rightarrow> 'a ITokens_scheme \<Rightarrow> string" where
  "strippedLineAsClaimed lcs langId lineStr tokens =
     claimedFrom (brackets (lcs langId)) lineStr tokens 0 [0..<getCount tokens]"

text \<open>
  The tokens of a line follow one another inside the line, and a bracket configuration
  may have brackets of one character only.
\<close>

fun tokensInOrder :: "'a ITokens_scheme \<Rightarrow> string \<Rightarrow> int \<Rightarrow> nat list \<Rightarrow> bool" where
  "tokensInOrder tokens lineStr pos [] \<longleftrightarrow> True"
| "tokensInOrder tokens lineStr pos (i # is) \<longleftrightarrow>
     pos \<le> getStartOffset tokens i
     \<and> getStartOffset tokens i \<le> getEndOffset tokens i
     \<and> getEndOffset tokens i \<le> int (length lineStr)
     \<and> tokensInOrder tokens lineStr (getEndOffset tokens i) is"

definition singleCharacterBrackets :: "RichEditBracket list option \<Rightarrow> bool" where
  "singleCharacterBrackets brs \<longleftrightarrow>
     (case brs of
        None \<Rightarrow> True
      | Some bl \<Rightarrow>
          list_all (\<lambda>b. length b = 1) (concat (map bracket_open bl))
          \<and> list_all (\<lambda>b. length b = 1) (concat (map bracket_close bl)))"

section \<open>The data of the hover controller\<close>

text \<open>
  Screen coordinates and the character width are JavaScript numbers; they are modelled
  as reals. The controller only compares them and halves one of them.
\<close>

record Position =
  pos_lineNumber :: int
  pos_column :: int

datatype HoverStartMode = Delayed | Immediate

datatype HoverStartSource = Mouse | Keyboard

datatype MouseTargetType = CONTENT_TEXT | CONTENT_EMPTY | OTHER_TARGET

datatype js_error = TypeError

text \<open>
  A method either returns or throws. A method that mutates the controller answers with
  its outcome and the state it leaves behind, also when it throws.
\<close>

datatype 'a outcome = Returns 'a | Throws js_error

fun then_do :: "unit outcome \<times> 's \<Rightarrow> ('s \<Rightarrow> 'a outcome \<times> 's) \<Rightarrow> 'a outcome \<times> 's" where
  \<comment> \<open>the statements after a call: they run when the call returns, in the state it left\<close>
  "then_do (Returns u, s) f = f s"
| "then_do (Throws e, s) f = (Throws e, s)"

record HoverAnchor =
  priority :: int
  anchor_range :: Range
  initialMousePosX :: "real option"
  initialMousePosY :: "real option"
  foreignElementOwner :: "nat option"
    \<comment> \<open>set in the anchors that a participant creates for an element of its own\<close>

definition HoverRangeAnchor :: "int \<Rightarrow> Range \<Rightarrow> real option \<Rightarrow> real option \<Rightarrow> HoverAnchor" where
  \<comment> \<open>\<open>new HoverRangeAnchor(priority, range, initialMousePosX, initialMousePosY)\<close>\<close>
  "HoverRangeAnchor p r x y =
     \<lparr>priority = p, anchor_range = r, initialMousePosX = x, initialMousePosY = y,
      foreignElementOwner = None\<rparr>"

record IEditorMouseEvent =
  target_type :: MouseTargetType
  target_range :: Range
  target_detail_isAfterLines :: bool
  target_detail_horizontalDistanceToText :: "real option"
  event_posx :: real
  event_posy :: real

text \<open>
  Objects that the controller compares with \<open>===\<close> carry their identity: a participant
  its \<open>participant_id\<close>, a hover result its \<open>result_ref\<close>. The \<open>owner\<close> of a hover part is
  the identity of the participant that produced it.
\<close>

record IHoverPart =
  owner :: nat
  part_range :: Range
  forceShowAtRange :: bool
  isBeforeContent :: bool
  part_text :: string

record HoverResult =
  result_ref :: nat
  result_anchor :: HoverAnchor
  messages :: "IHoverPart list"
  isComplete :: bool

record OperationResult =
  op_value :: "IHoverPart list"
  op_isComplete :: bool
  op_hasLoadingMessage :: bool

datatype Element = Node nat | StatusBarElement

text \<open>
  What a call of \<open>participant.renderHoverParts(context, hoverParts)\<close> does: the elements
  it returns, the children it appends to \<open>context.fragment\<close>, the number of actions it
  adds to \<open>context.statusBar\<close>, and the widget it passes to \<open>context.setColorPicker\<close>,
  if any.
\<close>

record ParticipantRendering =
  elements :: "Element list"
  appendedToFragment :: "Element list"
  statusBarActions :: nat
  colorPickerSet :: "nat option"

record IEditorHoverParticipant =
  participant_id :: nat
  hoverOrdinal :: int
  suggestHoverAnchor :: "(IEditorMouseEvent \<Rightarrow> HoverAnchor option) option"
  createLoadingMessage :: "(HoverAnchor \<Rightarrow> IHoverPart option) option"
  renderHoverParts :: "IHoverPart list \<Rightarrow> ParticipantRendering"
  isMarkdownHoverParticipant :: bool
    \<comment> \<open>an instance of \<open>MarkdownHoverParticipant\<close> that is not an \<open>InlayHintsHover\<close>\<close>

datatype RenderedPart =
    RenderedHoverPart (element: "Element option") (hoverPart: IHoverPart)
      (participant: IEditorHoverParticipant)
  | RenderedHoverStatusBar (element: "Element option")

record ViewModel =
  convertModelRangeToViewRange :: "Range \<Rightarrow> Range"
  getLineMinColumn :: "int \<Rightarrow> int"
  convertViewPositionToModelPosition :: "Position \<Rightarrow> Position"

record ICodeEditor =
  viewModel :: "ViewModel option"
  option_hover_sticky :: bool
  option_hover_above :: bool
  option_fontInfo_typicalHalfwidthCharacterWidth :: real

record ContentHoverVisibleData =
  vd_initialMousePosX :: "real option"
  vd_initialMousePosY :: "real option"
  vd_colorPicker :: "nat option"
  vd_showAtPosition :: Position
  vd_showAtSecondaryPosition :: Position
  vd_preferAbove :: bool
  vd_stoleFocus :: bool
  vd_source :: HoverStartSource
  vd_isBeforeContent :: bool
  vd_highlightDecoration :: "Range option"

record HoverRanges =
  showAtPosition :: Position
  showAtSecondaryPosition :: Position
  highlightRange :: Range

text \<open>
  The classes the controller calls into live in other files: \<open>Range\<close>, the anchors, the
  hover result and the widget. Their methods are parameters of the model; the widget is
  a value of an arbitrary type \<open>'w\<close> that is read and changed through them only.
  \<open>hoverResult_filter r anchor ref\<close> stands for \<open>r.filter(anchor)\<close>, where \<open>ref\<close> is the
  identity that a newly created result object gets.
\<close>

record range_host =
  plusRange :: "Range \<Rightarrow> Range \<Rightarrow> Range"
  getStartPosition :: "Range \<Rightarrow> Position"

record 'w hover_host = range_host +
  anchor_equals :: "HoverAnchor \<Rightarrow> HoverAnchor \<Rightarrow> bool"
  canAdoptVisibleHover :: "HoverAnchor \<Rightarrow> HoverAnchor \<Rightarrow> Position \<Rightarrow> bool"
  hoverResult_filter :: "HoverResult \<Rightarrow> HoverAnchor \<Rightarrow> nat \<Rightarrow> HoverResult"
  widget_position :: "'w \<Rightarrow> Position option"
  widget_isResizing :: "'w \<Rightarrow> bool"
  widget_isMouseGettingCloser :: "'w \<Rightarrow> real \<Rightarrow> real \<Rightarrow> bool"
  widget_hide :: "'w \<Rightarrow> 'w"
  widget_showAt :: "Element list \<Rightarrow> ContentHoverVisibleData \<Rightarrow> 'w \<Rightarrow> 'w"

text \<open>
  \<open>HoverOperation\<close> is driven through \<open>cancel()\<close> and \<open>start(mode)\<close>; the state of the
  controller records the calls it has made, oldest first.
\<close>

datatype OperationCall = Cancel | Start HoverStartMode

record 'w ContentHoverController =
  currentResult :: "HoverResult option"
  renderedParts :: "RenderedPart list"
  colorWidget :: "nat option"
  focusedHoverPartIndex :: int
  computer_anchor :: "HoverAnchor option"
  computer_shouldFocus :: bool
  computer_source :: HoverStartSource
  computer_insistOnKeepingHoverVisible :: bool
  widget :: 'w
  participants :: "IEditorHoverParticipant list"
  markdownHoverParticipant :: "nat option"
  hoverOperation :: "OperationCall list"
  editor :: ICodeEditor
  nextRef :: nat

section \<open>The hover controller\<close>

subsection \<open>constructor\<close>

record ContentHoverComputer =
  initial_anchor :: "HoverAnchor option"
  initial_shouldFocus :: bool
  initial_source :: HoverStartSource
  initial_insistOnKeepingHoverVisible :: bool

definition constructor ::
  "ICodeEditor \<Rightarrow> 'w \<Rightarrow> IEditorHoverParticipant list \<Rightarrow> ContentHoverComputer
     \<Rightarrow> 'w ContentHoverController" where
  \<comment> \<open>\<open>instances\<close>: what \<open>createInstance\<close> answers for the participants of the registry,
      in registry order; \<open>w\<close>: the widget it answers; \<open>computer\<close>: the fields of the new
      \<open>ContentHoverComputer\<close>\<close>
  "constructor ed w instances computer =
     \<lparr>currentResult = None, renderedParts = [], colorWidget = None,
      focusedHoverPartIndex = - 1,
      computer_anchor = initial_anchor computer,
      computer_shouldFocus = initial_shouldFocus computer,
      computer_source = initial_source computer,
      computer_insistOnKeepingHoverVisible = initial_insistOnKeepingHoverVisible computer,
      widget = w,
      participants = sort_key hoverOrdinal instances,
      markdownHoverParticipant =
        (case filter isMarkdownHoverParticipant instances of
           [] \<Rightarrow> None | ms \<Rightarrow> Some (participant_id (last ms))),
      hoverOperation = [],
      editor = ed,
      nextRef = 0\<rparr>"

subsection \<open>computeHoverRanges\<close>

definition startColumnBoundary :: "ICodeEditor \<Rightarrow> Range \<Rightarrow> int" where
  "startColumnBoundary ed anchorRange =
     (case viewModel ed of
        None \<Rightarrow> 1
      | Some vm \<Rightarrow>
          (let anchorViewRange = convertModelRangeToViewRange vm anchorRange;
               anchorViewRangeStart =
                 \<lparr>pos_lineNumber = startLineNumber anchorViewRange,
                  pos_column = getLineMinColumn vm (startLineNumber anchorViewRange)\<rparr>
           in pos_column (convertViewPositionToModelPosition vm anchorViewRangeStart)))"

definition computeHoverRanges_step ::
  "'a range_host_scheme \<Rightarrow> int \<Rightarrow> int \<Rightarrow> Range \<times> int \<times> Range option \<Rightarrow> IHoverPart
     \<Rightarrow> Range \<times> int \<times> Range option" where
  \<comment> \<open>the body of \<open>for (const msg of messages)\<close>, on
      \<open>(highlightRange, renderStartColumn, forceShowAtRange)\<close>\<close>
  "computeHoverRanges_step h anchorLineNumber boundary acc msg =
     (case acc of (hl, renderStartColumn, force) \<Rightarrow>
        (plusRange h hl (part_range msg),
         (if startLineNumber (part_range msg) = anchorLineNumber
             \<and> endLineNumber (part_range msg) = anchorLineNumber
          then max (min renderStartColumn (startColumn (part_range msg))) boundary
          else renderStartColumn),
         (if forceShowAtRange msg then Some (part_range msg) else force)))"

definition computeHoverRanges ::
  "'a range_host_scheme \<Rightarrow> ICodeEditor \<Rightarrow> Range \<Rightarrow> IHoverPart list \<Rightarrow> HoverRanges outcome" where
  "computeHoverRanges h ed anchorRange msgs =
     (case msgs of
        [] \<Rightarrow> Throws TypeError
      | m0 # _ \<Rightarrow>
          (case foldl (computeHoverRanges_step h (startLineNumber anchorRange)
                         (startColumnBoundary ed anchorRange))
                  (part_range m0, startColumn anchorRange, None) msgs of
             (hl, renderStartColumn, force) \<Rightarrow>
               Returns
                 \<lparr>showAtPosition =
                    (case force of
                       Some r \<Rightarrow> getStartPosition h r
                     | None \<Rightarrow> \<lparr>pos_lineNumber = startLineNumber anchorRange,
                                pos_column = startColumn anchorRange\<rparr>),
                  showAtSecondaryPosition =
                    (case force of
                       Some r \<Rightarrow> getStartPosition h r
                     | None \<Rightarrow> \<lparr>pos_lineNumber = startLineNumber anchorRange,
                                pos_column = renderStartColumn\<rparr>),
                  highlightRange = hl\<rparr>))"

subsection \<open>Starting and cancelling the hover operation\<close>

definition startHoverOperationIfNecessary ::
  "('w, 'z) hover_host_scheme \<Rightarrow> HoverAnchor \<Rightarrow> HoverStartMode \<Rightarrow> HoverStartSource \<Rightarrow> bool \<Rightarrow> bool
     \<Rightarrow> 'w ContentHoverController \<Rightarrow> 'w ContentHoverController" where
  "startHoverOperationIfNecessary h anchor mode source focus insistOnKeepingHoverVisible s =
     (if (case computer_anchor s of None \<Rightarrow> False | Some a \<Rightarrow> anchor_equals h a anchor)
      then s
      else s\<lparr>hoverOperation := hoverOperation s @ [Cancel, Start mode],
             computer_anchor := Some anchor,
             computer_shouldFocus := focus,
             computer_source := source,
             computer_insistOnKeepingHoverVisible := insistOnKeepingHoverVisible\<rparr>)"

subsection \<open>Rendering\<close>

definition elementAt :: "Element list \<Rightarrow> nat \<Rightarrow> Element option" where
  \<comment> \<open>\<open>elements[index]\<close>, undefined beyond the end of the array\<close>
  "elementAt es index = (if index < length es then Some (es ! index) else None)"

definition renderParticipant ::
  "IHoverPart list \<Rightarrow> RenderedPart list \<times> Element list \<times> nat \<times> nat option
     \<Rightarrow> IEditorHoverParticipant \<Rightarrow> RenderedPart list \<times> Element list \<times> nat \<times> nat option" where
  \<comment> \<open>the body of \<open>for (const participant of this._participants)\<close> in
      \<open>_renderHoverPartsWithContext\<close>, on \<open>(renderedHoverParts, fragment, actions of the
      status bar, _colorWidget)\<close>\<close>
  "renderParticipant hoverParts acc p =
     (case acc of (renderedHoverParts, fragment, actions, color) \<Rightarrow>
        (let hoverPartsForParticipant = filter (\<lambda>msg. owner msg = participant_id p) hoverParts
         in if hoverPartsForParticipant = [] then acc
            else
              (let r = renderHoverParts p hoverPartsForParticipant
               in (renderedHoverParts
                     @ map (\<lambda>(index, hp). RenderedHoverPart (elementAt (elements r) index) hp p)
                         (enumerate 0 hoverPartsForParticipant),
                   fragment @ appendedToFragment r,
                   actions + statusBarActions r,
                   (case colorPickerSet r of None \<Rightarrow> color | Some c \<Rightarrow> Some c)))))"

definition renderHoverPartsWithContext ::
  "'w ContentHoverController \<Rightarrow> IHoverPart list
     \<Rightarrow> RenderedPart list \<times> Element list \<times> nat \<times> nat option" where
  "renderHoverPartsWithContext s hoverParts =
     foldl (renderParticipant hoverParts) ([], [], 0, colorWidget s) (participants s)"

definition renderHoverPartsInFragment ::
  "IHoverPart list \<Rightarrow> 'w ContentHoverController \<Rightarrow> Element list \<times> 'w ContentHoverController" where
  \<comment> \<open>answers the children of the fragment and the new state; the status bar has content
      when an action was added to it\<close>
  "renderHoverPartsInFragment hoverParts s =
     (case renderHoverPartsWithContext s hoverParts of
        (renderedHoverParts, fragment, actions, color) \<Rightarrow>
          if actions = 0
          then (fragment, s\<lparr>renderedParts := renderedHoverParts, colorWidget := color\<rparr>)
          else (fragment @ [StatusBarElement],
                s\<lparr>renderedParts :=
                     renderedHoverParts @ [RenderedHoverStatusBar (Some StatusBarElement)],
                   colorWidget := color\<rparr>))"

definition registerHoverListeners :: "'w ContentHoverController \<Rightarrow> unit outcome" where
  \<comment> \<open>\<open>element.tabIndex = 0\<close> throws on a rendered part whose element is undefined\<close>
  "registerHoverListeners s =
     (if list_all (\<lambda>renderedPart. element renderedPart \<noteq> None) (renderedParts s)
      then Returns () else Throws TypeError)"

definition renderHoverParts_ctl ::
  "('w, 'z) hover_host_scheme \<Rightarrow> HoverAnchor \<Rightarrow> IHoverPart list \<Rightarrow> 'w ContentHoverController
     \<Rightarrow> unit outcome \<times> 'w ContentHoverController" where
  \<comment> \<open>\<open>_renderHoverParts\<close>\<close>
  "renderHoverParts_ctl h anchor hoverParts s =
     (case renderHoverPartsInFragment hoverParts s of
        (fragment, s1) \<Rightarrow>
          (case registerHoverListeners s1 of
             Throws e \<Rightarrow> (Throws e, s1)
           | Returns _ \<Rightarrow>
               if fragment \<noteq> [] then
                 (case computeHoverRanges h (editor s1) (anchor_range anchor) hoverParts of
                    Throws e \<Rightarrow> (Throws e, s1)
                  | Returns ranges \<Rightarrow>
                      (Returns (),
                       s1\<lparr>widget :=
                            widget_showAt h fragment
                              \<lparr>vd_initialMousePosX = initialMousePosX anchor,
                               vd_initialMousePosY = initialMousePosY anchor,
                               vd_colorPicker = colorWidget s1,
                               vd_showAtPosition = showAtPosition ranges,
                               vd_showAtSecondaryPosition = showAtSecondaryPosition ranges,
                               vd_preferAbove = option_hover_above (editor s1),
                               vd_stoleFocus = computer_shouldFocus s1,
                               vd_source = computer_source s1,
                               vd_isBeforeContent = list_ex isBeforeContent hoverParts,
                               vd_highlightDecoration = Some (highlightRange ranges)\<rparr>
                              (widget s1)\<rparr>))
               else (Returns (), s1)))"

definition sameResult :: "HoverResult option \<Rightarrow> HoverResult option \<Rightarrow> bool" where
  \<comment> \<open>\<open>this._currentResult === hoverResult\<close>: both null, or the same object\<close>
  "sameResult a b \<longleftrightarrow> map_option result_ref a = map_option result_ref b"

definition setCurrentResult ::
  "('w, 'z) hover_host_scheme \<Rightarrow> HoverResult option \<Rightarrow> 'w ContentHoverController
     \<Rightarrow> unit outcome \<times> 'w ContentHoverController" where
  "setCurrentResult h hoverResult s =
     (if sameResult (currentResult s) hoverResult then (Returns (), s)
      else
        (case (case hoverResult of
                 None \<Rightarrow> None
               | Some r \<Rightarrow> if messages r = [] then None else Some r) of
           Some r \<Rightarrow>
             renderHoverParts_ctl h (result_anchor r) (messages r) (s\<lparr>currentResult := Some r\<rparr>)
         | None \<Rightarrow>
             (Returns (), s\<lparr>currentResult := None, widget := widget_hide h (widget s)\<rparr>)))"

definition addLoadingMessage ::
  "'w ContentHoverController \<Rightarrow> IHoverPart list \<Rightarrow> IHoverPart list" where
  "addLoadingMessage s result =
     (case computer_anchor s of
        None \<Rightarrow> result
      | Some anchor \<Rightarrow>
          (case List.map_filter
                  (\<lambda>p. case createLoadingMessage p of None \<Rightarrow> None | Some f \<Rightarrow> f anchor)
                  (participants s) of
             [] \<Rightarrow> result
           | loadingMessage # _ \<Rightarrow> result @ [loadingMessage]))"

definition withResult ::
  "('w, 'z) hover_host_scheme \<Rightarrow> HoverResult \<Rightarrow> 'w ContentHoverController
     \<Rightarrow> unit outcome \<times> 'w ContentHoverController" where
  "withResult h hoverResult s =
     (if widget_position h (widget s) \<noteq> None
         \<and> (case currentResult s of None \<Rightarrow> False | Some cur \<Rightarrow> isComplete cur)
      then
        (if \<not> isComplete hoverResult then (Returns (), s)
         else if computer_insistOnKeepingHoverVisible s \<and> messages hoverResult = []
         then (Returns (), s)
         else setCurrentResult h (Some hoverResult) s)
      else setCurrentResult h (Some hoverResult) s)"

definition onResult ::
  "('w, 'z) hover_host_scheme \<Rightarrow> OperationResult \<Rightarrow> 'w ContentHoverController
     \<Rightarrow> unit outcome \<times> 'w ContentHoverController" where
  \<comment> \<open>the listener of \<open>this._hoverOperation.onResult\<close>; the new \<open>HoverResult\<close> is a new object\<close>
  "onResult h result s =
     (case computer_anchor s of
        None \<Rightarrow> (Returns (), s)
      | Some anchor \<Rightarrow>
          withResult h
            \<lparr>result_ref = nextRef s, result_anchor = anchor,
             messages = (if op_hasLoadingMessage result then addLoadingMessage s (op_value result)
                         else op_value result),
             isComplete = op_isComplete result\<rparr>
            (s\<lparr>nextRef := Suc (nextRef s)\<rparr>))"

definition onTokenizationChange ::
  "('w, 'z) hover_host_scheme \<Rightarrow> 'w ContentHoverController
     \<Rightarrow> unit outcome \<times> 'w ContentHoverController" where
  \<comment> \<open>the listener of \<open>TokenizationRegistry.onDidChange\<close>\<close>
  "onTokenizationChange h s =
     (if widget_position h (widget s) \<noteq> None \<and> currentResult s \<noteq> None
      then setCurrentResult h (currentResult s) s
      else (Returns (), s))"

definition hide ::
  "('w, 'z) hover_host_scheme \<Rightarrow> 'w ContentHoverController
     \<Rightarrow> unit outcome \<times> 'w ContentHoverController" where
  "hide h s =
     setCurrentResult h None
       (s\<lparr>computer_anchor := None, hoverOperation := hoverOperation s @ [Cancel]\<rparr>)"

subsection \<open>Showing, updating and hiding the hover\<close>

definition isGettingCloser ::
  "('w, 'z) hover_host_scheme \<Rightarrow> IEditorMouseEvent option \<Rightarrow> 'w ContentHoverController \<Rightarrow> bool" where
  "isGettingCloser h mouseEvent s \<longleftrightarrow>
     option_hover_sticky (editor s)
     \<and> (case mouseEvent of
          None \<Rightarrow> False
        | Some ev \<Rightarrow> widget_isMouseGettingCloser h (widget s) (event_posx ev) (event_posy ev))"

definition startShowingOrUpdateHover ::
  "('w, 'z) hover_host_scheme \<Rightarrow> HoverAnchor option \<Rightarrow> HoverStartMode \<Rightarrow> HoverStartSource \<Rightarrow> bool
     \<Rightarrow> IEditorMouseEvent option \<Rightarrow> 'w ContentHoverController
     \<Rightarrow> bool outcome \<times> 'w ContentHoverController" where
  "startShowingOrUpdateHover h anchor mode source focus mouseEvent s =
     (case (widget_position h (widget s), currentResult s) of
        (Some pos, Some cur) \<Rightarrow>
          \<comment> \<open>the hover is currently visible\<close>
          (if isGettingCloser h mouseEvent s then
             (case anchor of
                None \<Rightarrow> (Returns True, s)
              | Some a \<Rightarrow> (Returns True, startHoverOperationIfNecessary h a mode source focus True s))
           else
             (case anchor of
                None \<Rightarrow>
                  then_do (setCurrentResult h None s) (\<lambda>s1. (Returns False, s1))
              | Some a \<Rightarrow>
                  if anchor_equals h (result_anchor cur) a then (Returns True, s)
                  else if \<not> canAdoptVisibleHover h a (result_anchor cur) pos then
                    then_do (setCurrentResult h None s)
                      (\<lambda>s1. (Returns True,
                             startHoverOperationIfNecessary h a mode source focus False s1))
                  else
                    then_do
                      (setCurrentResult h (Some (hoverResult_filter h cur a (nextRef s)))
                         (s\<lparr>nextRef := Suc (nextRef s)\<rparr>))
                      (\<lambda>s1. (Returns True,
                             startHoverOperationIfNecessary h a mode source focus False s1))))
      | _ \<Rightarrow>
          \<comment> \<open>the hover is not visible\<close>
          (case anchor of
             Some a \<Rightarrow> (Returns True, startHoverOperationIfNecessary h a mode source focus False s)
           | None \<Rightarrow> (Returns False, s)))"

definition anchorCandidates ::
  "'w ContentHoverController \<Rightarrow> IEditorMouseEvent \<Rightarrow> HoverAnchor list" where
  "anchorCandidates s mouseEvent =
     List.map_filter
       (\<lambda>p. case suggestHoverAnchor p of None \<Rightarrow> None | Some f \<Rightarrow> f mouseEvent)
       (participants s)
     @ (if target_type mouseEvent = CONTENT_TEXT
        then [HoverRangeAnchor 0 (target_range mouseEvent)
                (Some (event_posx mouseEvent)) (Some (event_posy mouseEvent))]
        else [])
     @ (if target_type mouseEvent = CONTENT_EMPTY
           \<and> \<not> target_detail_isAfterLines mouseEvent
           \<and> (case target_detail_horizontalDistanceToText mouseEvent of
                 None \<Rightarrow> False
               | Some d \<Rightarrow>
                   d < option_fontInfo_typicalHalfwidthCharacterWidth (editor s) / 2)
        then [HoverRangeAnchor 0 (target_range mouseEvent)
                (Some (event_posx mouseEvent)) (Some (event_posy mouseEvent))]
        else [])"

definition sortByPriority :: "HoverAnchor list \<Rightarrow> HoverAnchor list" where
  \<comment> \<open>\<open>anchorCandidates.sort((a, b) => b.priority - a.priority)\<close>: stable, highest first\<close>
  "sortByPriority as = sort_key (\<lambda>a. - priority a) as"

definition showsOrWillShow ::
  "('w, 'z) hover_host_scheme \<Rightarrow> IEditorMouseEvent \<Rightarrow> 'w ContentHoverController
     \<Rightarrow> bool outcome \<times> 'w ContentHoverController" where
  "showsOrWillShow h mouseEvent s =
     (if widget_isResizing h (widget s) then (Returns True, s)
      else
        (case sortByPriority (anchorCandidates s mouseEvent) of
           [] \<Rightarrow> startShowingOrUpdateHover h None Delayed Mouse False (Some mouseEvent) s
         | a # _ \<Rightarrow> startShowingOrUpdateHover h (Some a) Delayed Mouse False (Some mouseEvent) s))"

definition startShowingAtRange ::
  "('w, 'z) hover_host_scheme \<Rightarrow> Range \<Rightarrow> HoverStartMode \<Rightarrow> HoverStartSource \<Rightarrow> bool
     \<Rightarrow> 'w ContentHoverController \<Rightarrow> bool outcome \<times> 'w ContentHoverController" where
  \<comment> \<open>the source discards the answer of \<open>_startShowingOrUpdateHover\<close>\<close>
  "startShowingAtRange h rng mode source focus s =
     startShowingOrUpdateHover h (Some (HoverRangeAnchor 0 rng None None)) mode source focus None s"

subsection \<open>The controller over time\<close>

text \<open>
  What can happen to a controller after its construction: the calls of its public
  methods that reach the hover operation and the result, and the events it listens to.
  An exception ends the handling of one event; the controller stays in the state the
  handler left.
\<close>

datatype ControllerEvent =
    ShowsOrWillShow IEditorMouseEvent
  | StartShowingAtRange Range HoverStartMode HoverStartSource bool
  | Hide
  | OnResult OperationResult
  | OnTokenizationChange

definition handle ::
  "('w, 'z) hover_host_scheme \<Rightarrow> 'w ContentHoverController \<Rightarrow> ControllerEvent
     \<Rightarrow> 'w ContentHoverController" where
  "handle h s ev =
     (case ev of
        ShowsOrWillShow mouseEvent \<Rightarrow> snd (showsOrWillShow h mouseEvent s)
      | StartShowingAtRange rng mode source focus \<Rightarrow>
          snd (startShowingAtRange h rng mode source focus s)
      | Hide \<Rightarrow> snd (hide h s)
      | OnResult result \<Rightarrow> snd (onResult h result s)
      | OnTokenizationChange \<Rightarrow> snd (onTokenizationChange h s))"

subsection \<open>Notions for the properties of the controller\<close>

text \<open>The brand of a rendered part: \<open>renderedPart.brand === `renderedHoverPart`\<close>.\<close>

fun isRenderedHoverPart :: "RenderedPart \<Rightarrow> bool" where
  "isRenderedHoverPart (RenderedHoverPart e hp p) = True"
| "isRenderedHoverPart (RenderedHoverStatusBar e) = False"

text \<open>
  The entries that one pass of the loop of \<open>_renderHoverPartsWithContext\<close> pushes for a
  participant: one for each hover part it owns, in the order of the hover parts.
\<close>

definition participantEntries :: "IHoverPart list \<Rightarrow> IEditorHoverParticipant \<Rightarrow> RenderedPart list" where
  "participantEntries hoverParts p =
     (let hoverPartsForParticipant = filter (\<lambda>msg. owner msg = participant_id p) hoverParts
      in map (\<lambda>(index, hp).
                RenderedHoverPart
                  (elementAt (elements (renderHoverParts p hoverPartsForParticipant)) index) hp p)
           (enumerate 0 hoverPartsForParticipant))"

text \<open>
  A list of rendered parts is in order when its hover parts come first, in ascending
  \<open>hoverOrdinal\<close> of their participants, and at most one status bar follows them.
\<close>

definition renderedInOrder :: "RenderedPart list \<Rightarrow> bool" where
  "renderedInOrder rps \<longleftrightarrow>
     sorted (map (\<lambda>rp. hoverOrdinal (participant rp)) (takeWhile isRenderedHoverPart rps))
     \<and> (case dropWhile isRenderedHoverPart rps of
          [] \<Rightarrow> True
        | [RenderedHoverStatusBar e] \<Rightarrow> True
        | _ \<Rightarrow> False)"

definition ordered :: "'w ContentHoverController \<Rightarrow> bool" where
  "ordered s \<longleftrightarrow>
     sorted (map hoverOrdinal (participants s)) \<and> renderedInOrder (renderedParts s)"

text \<open>
  Modelled from the spec: \<open>HoverOperation\<close> (hoverOperation.ts) is not among the sources;
  the spec calls the coordination "cancel-and-replace of a single async fetch". So
  \<open>cancel()\<close> ends the fetch in flight and \<open>start(mode)\<close> begins one, and the fetches in
  flight are at most the calls of \<open>start\<close> made after the last call of \<open>cancel\<close>.
\<close>

definition fetchesInFlight :: "OperationCall list \<Rightarrow> nat" where
  \<comment> \<open>the fetches that were started and not cancelled since: the calls of \<open>start\<close> after
      the last call of \<open>cancel\<close>\<close>
  "fetchesInFlight calls = length (takeWhile (\<lambda>c. c \<noteq> Cancel) (rev calls))"

definition atMostOneFetch :: "OperationCall list \<Rightarrow> bool" where
  "atMostOneFetch calls \<longleftrightarrow> fetchesInFlight calls \<le> 1"


section \<open>A small language and document for concrete evaluation\<close>

text \<open>
  One language, \<open>ts\<close>, whose lines are a single token each: a line ending in an opening
  brace increases the indentation, a line starting with a closing brace decreases it. The
  helpers of the host are the usual ones: leading blanks and tabs, ranges that are empty
  when start and end coincide, and scoped tokens that span the whole line.
\<close>

definition ex_leadingWhitespace :: "string \<Rightarrow> string" where
  "ex_leadingWhitespace s = takeWhile (\<lambda>c. c = CHR '' '' \<or> c = CHR 0x09) s"

definition ex_lineTokens :: "string \<Rightarrow> LineTokens" where
  "ex_lineTokens s =
     \<lparr>getCount = 1, getStandardTokenType = (\<lambda>i. Other), getStartOffset = (\<lambda>i. 0),
      getEndOffset = (\<lambda>i. int (length s)), tokens_getLineContent = s,
      tokens_getLanguageId = (\<lambda>i. ''ts'')\<rparr>"

definition ex_scoped :: "LineTokens \<Rightarrow> ScopedLineTokens" where
  "ex_scoped lt =
     \<lparr>getCount = getCount lt, getStandardTokenType = getStandardTokenType lt,
      getStartOffset = getStartOffset lt, getEndOffset = getEndOffset lt,
      tokens_getLineContent = tokens_getLineContent lt, languageId = ''ts'', firstCharOffset = 0\<rparr>"

definition ex_host :: indent_host where
  "ex_host =
     \<lparr>Full = 4, INCREASE_MASK = 1, DECREASE_MASK = 2, INDENT_NEXTLINE_MASK = 4,
      getLeadingWhitespace = ex_leadingWhitespace,
      createScopedLineTokens = (\<lambda>lt offset. ex_scoped lt),
      getScopedLineTokens = (\<lambda>model lineNumber column. ex_scoped (tokenization_getLineTokens model lineNumber)),
      isEmpty = (\<lambda>r. startLineNumber r = endLineNumber r \<and> startColumn r = endColumn r)\<rparr>"

definition ex_lines :: "int \<Rightarrow> string" where
  "ex_lines n = (if n = 1 then ''  if (x) {'' else if n = 2 then ''      y();''
      else if n = 3 then ''      '' else [])"

definition ex_model :: ITextModel where
  "ex_model =
     \<lparr>tokenization_getLineTokens = (\<lambda>n. ex_lineTokens (ex_lines n)),
      tokenization_getLanguageId = ''ts'',
      tokenization_getLanguageIdAtPosition = (\<lambda>n c. ''ts''),
      getLineContent = ex_lines,
      getLanguageId = ''ts'',
      getLanguageIdAtPosition = (\<lambda>n c. ''ts''),
      getLineCount = 3\<rparr>"

definition ex_rules :: IndentRulesSupport where
  "ex_rules =
     \<lparr>shouldIncrease = (\<lambda>s. s \<noteq> [] \<and> last s = CHR ''{''),
      shouldDecrease = (\<lambda>s. take 1 (dropWhile (\<lambda>c. c = CHR '' '') s) = ''}''),
      shouldIndentNextLine = (\<lambda>s. False),
      shouldIgnore = (\<lambda>s. False),
      rules_getIndentMetadata = (\<lambda>s. (if s \<noteq> [] \<and> last s = CHR ''{'' then 1 else 0)
          + (if take 1 (dropWhile (\<lambda>c. c = CHR '' '') s) = ''}'' then 2 else 0))\<rparr>"

definition ex_lcs :: ILanguageConfigurationService where
  "ex_lcs lang =
     (if lang = ''ts'' then
        \<lparr>indentRulesSupport = Some ex_rules,
         brackets = Some [\<lparr>bracket_open = [''{''], bracket_close = [''}'']\<rparr>],
         onEnter = (\<lambda>a b c d. None)\<rparr>
      else \<lparr>indentRulesSupport = None, brackets = None, onEnter = (\<lambda>a b c d. None)\<rparr>)"

definition ex_converter :: IIndentConverter where
  "ex_converter = \<lparr>shiftIndent = (\<lambda>s. s @ ''    ''), unshiftIndent = (\<lambda>s. drop 4 s)\<rparr>"

definition ex_range :: Range where
  "ex_range = \<lparr>startLineNumber = 3, startColumn = 7, endLineNumber = 3, endColumn = 7\<rparr>"


text \<open>
  A line of a second document, \<open>"    x"\<close>: its first two characters belong to \<open>html\<close>,
  the rest to an embedded \<open>js\<close> region, so the tokens scoped at a cursor inside that
  region start at offset 2.
\<close>

definition ex_embedded_lineTokens :: LineTokens where
  "ex_embedded_lineTokens =
     \<lparr>getCount = 2, getStandardTokenType = (\<lambda>i. Other),
      getStartOffset = (\<lambda>i. if i = 0 then 0 else 2),
      getEndOffset = (\<lambda>i. if i = 0 then 2 else 5),
      tokens_getLineContent = ''    x'',
      tokens_getLanguageId = (\<lambda>i. if i = 0 then ''html'' else ''js'')\<rparr>"

definition ex_embedded_scoped :: ScopedLineTokens where
  "ex_embedded_scoped =
     \<lparr>getCount = 1, getStandardTokenType = (\<lambda>i. Other), getStartOffset = (\<lambda>i. 0),
      getEndOffset = (\<lambda>i. 3), tokens_getLineContent = ''  x'',
      languageId = ''js'', firstCharOffset = 2\<rparr>"

definition ex_embedded_host :: indent_host where
  "ex_embedded_host =
     ex_host\<lparr>createScopedLineTokens := (\<lambda>lt offset. ex_embedded_scoped),
             getScopedLineTokens := (\<lambda>model lineNumber column. ex_embedded_scoped)\<rparr>"

definition ex_embedded_model :: ITextModel where
  "ex_embedded_model =
     \<lparr>tokenization_getLineTokens = (\<lambda>n. ex_embedded_lineTokens),
      tokenization_getLanguageId = ''html'',
      tokenization_getLanguageIdAtPosition = (\<lambda>n c. ''html''),
      getLineContent = (\<lambda>n. ''    x''),
      getLanguageId = ''html'',
      getLanguageIdAtPosition = (\<lambda>n c. ''html''),
      getLineCount = 1\<rparr>"

definition ex_embedded_lcs :: ILanguageConfigurationService where
  "ex_embedded_lcs lang =
     \<lparr>indentRulesSupport = (if lang = ''js'' then Some ex_rules else None),
      brackets = None, onEnter = (\<lambda>a b c d. None)\<rparr>"

definition ex_embedded_range :: Range where
  "ex_embedded_range = \<lparr>startLineNumber = 1, startColumn = 4, endLineNumber = 1, endColumn = 4\<rparr>"

text \<open>
  A controller with two participants, a markdown participant (ordinal 3) and a marker
  participant (ordinal 1) that adds an action to the status bar. The widget is modelled
  by the position it is shown at, if any. Two range anchors are equal when their ranges
  are, two anchors of foreign elements when their owners are, and a visible hover is
  adopted by a range anchor on its line or by an anchor of the same foreign owner.
\<close>

definition ex_plusRange :: "Range \<Rightarrow> Range \<Rightarrow> Range" where
  "ex_plusRange a b =
     \<lparr>startLineNumber = min (startLineNumber a) (startLineNumber b),
      startColumn =
        (if startLineNumber b < startLineNumber a then startColumn b
         else if startLineNumber b = startLineNumber a then min (startColumn b) (startColumn a)
         else startColumn a),
      endLineNumber = max (endLineNumber a) (endLineNumber b),
      endColumn =
        (if endLineNumber b > endLineNumber a then endColumn b
         else if endLineNumber b = endLineNumber a then max (endColumn b) (endColumn a)
         else endColumn a)\<rparr>"

definition ex_hover_host :: "Position option hover_host" where
  "ex_hover_host =
     \<lparr>plusRange = ex_plusRange,
      getStartPosition = (\<lambda>r. \<lparr>pos_lineNumber = startLineNumber r, pos_column = startColumn r\<rparr>),
      anchor_equals =
        (\<lambda>a b. case (foreignElementOwner a, foreignElementOwner b) of
                 (None, None) \<Rightarrow> anchor_range a = anchor_range b
               | (Some oa, Some ob) \<Rightarrow> oa = ob
               | _ \<Rightarrow> False),
      canAdoptVisibleHover =
        (\<lambda>a lastAnchor pos.
           case (foreignElementOwner a, foreignElementOwner lastAnchor) of
             (None, None) \<Rightarrow> pos_lineNumber pos = startLineNumber (anchor_range a)
           | (Some oa, Some ob) \<Rightarrow> oa = ob
           | _ \<Rightarrow> False),
      hoverResult_filter = (\<lambda>r a ref. r),
      widget_position = (\<lambda>w. w),
      widget_isResizing = (\<lambda>w. False),
      widget_isMouseGettingCloser = (\<lambda>w x y. False),
      widget_hide = (\<lambda>w. None),
      widget_showAt = (\<lambda>fragment visibleData w. Some (vd_showAtPosition visibleData))\<rparr>"

definition ex_editor :: ICodeEditor where
  "ex_editor =
     \<lparr>viewModel = None, option_hover_sticky = True, option_hover_above = True,
      option_fontInfo_typicalHalfwidthCharacterWidth = 8\<rparr>"

definition ex_render :: "nat \<Rightarrow> nat \<Rightarrow> IHoverPart list \<Rightarrow> ParticipantRendering" where
  "ex_render base actions hoverParts =
     \<lparr>elements = map (\<lambda>(i, hp). Node (base + i)) (enumerate 0 hoverParts),
      appendedToFragment = map (\<lambda>(i, hp). Node (base + i)) (enumerate 0 hoverParts),
      statusBarActions = actions,
      colorPickerSet = None\<rparr>"

definition ex_markdown :: IEditorHoverParticipant where
  "ex_markdown =
     \<lparr>participant_id = 0, hoverOrdinal = 3, suggestHoverAnchor = None,
      createLoadingMessage = None, renderHoverParts = ex_render 100 0,
      isMarkdownHoverParticipant = True\<rparr>"

definition ex_marker :: IEditorHoverParticipant where
  "ex_marker =
     \<lparr>participant_id = 1, hoverOrdinal = 1, suggestHoverAnchor = None,
      createLoadingMessage = None, renderHoverParts = ex_render 200 1,
      isMarkdownHoverParticipant = False\<rparr>"

definition ex_word :: Range where
  "ex_word = \<lparr>startLineNumber = 2, startColumn = 5, endLineNumber = 2, endColumn = 9\<rparr>"

definition ex_other_word :: Range where
  "ex_other_word = \<lparr>startLineNumber = 2, startColumn = 12, endLineNumber = 2, endColumn = 15\<rparr>"

definition ex_part :: "nat \<Rightarrow> Range \<Rightarrow> bool \<Rightarrow> IHoverPart" where
  "ex_part own r force =
     \<lparr>owner = own, part_range = r, forceShowAtRange = force, isBeforeContent = False,
      part_text = ''text''\<rparr>"

definition ex_mouse :: "Range \<Rightarrow> IEditorMouseEvent" where
  "ex_mouse r =
     \<lparr>target_type = CONTENT_TEXT, target_range = r, target_detail_isAfterLines = False,
      target_detail_horizontalDistanceToText = None, event_posx = 40, event_posy = 30\<rparr>"

definition ex_computer :: ContentHoverComputer where
  "ex_computer =
     \<lparr>initial_anchor = None, initial_shouldFocus = False, initial_source = Mouse,
      initial_insistOnKeepingHoverVisible = False\<rparr>"

definition ex_controller :: "Position option ContentHoverController" where
  "ex_controller = constructor ex_editor None [ex_markdown, ex_marker] ex_computer"

definition ex_events :: "ControllerEvent list" where
  "ex_events =
     [ShowsOrWillShow (ex_mouse ex_word),
      OnResult \<lparr>op_value = [ex_part 0 ex_word False, ex_part 1 ex_word False, ex_part 0 ex_word False],
                op_isComplete = True, op_hasLoadingMessage = False\<rparr>,
      ShowsOrWillShow (ex_mouse ex_other_word)]"

definition ex_shown :: "Position option ContentHoverController" where
  \<comment> \<open>the hover is shown with the complete result of the first fetch\<close>
  "ex_shown = foldl (handle ex_hover_host) ex_controller (take 2 ex_events)"

definition ex_shown_result :: HoverResult where
  "ex_shown_result =
     \<lparr>result_ref = 0, result_anchor = HoverRangeAnchor 0 ex_word (Some 40) (Some 30),
      messages = [ex_part 0 ex_word False, ex_part 1 ex_word False, ex_part 0 ex_word False],
      isComplete = True\<rparr>"

text \<open>
  A third participant suggests an anchor of priority 5 over content text, and a mouse
  event over the margin, where nobody suggests an anchor.
\<close>

definition ex_color_anchor :: "IEditorMouseEvent \<Rightarrow> HoverAnchor" where
  "ex_color_anchor ev =
     \<lparr>priority = 5, anchor_range = target_range ev,
      initialMousePosX = Some (event_posx ev), initialMousePosY = Some (event_posy ev),
      foreignElementOwner = Some 2\<rparr>"

definition ex_color :: IEditorHoverParticipant where
  "ex_color =
     \<lparr>participant_id = 2, hoverOrdinal = 2,
      suggestHoverAnchor =
        Some (\<lambda>ev. if target_type ev = CONTENT_TEXT then Some (ex_color_anchor ev) else None),
      createLoadingMessage = None, renderHoverParts = ex_render 300 0,
      isMarkdownHoverParticipant = False\<rparr>"

definition ex_color_controller :: "Position option ContentHoverController" where
  "ex_color_controller = constructor ex_editor None [ex_markdown, ex_color, ex_marker] ex_computer"

definition ex_margin :: IEditorMouseEvent where
  "ex_margin = (ex_mouse ex_word)\<lparr>target_type := OTHER_TARGET\<rparr>"

text \<open>
  A language whose brackets are the words \<open>begin\<close> and \<open>end\<close>, and the tokens of a line
  that starts with a regular expression.
\<close>

definition ex_pascal_lcs :: ILanguageConfigurationService where
  "ex_pascal_lcs lang =
     \<lparr>indentRulesSupport = None,
      brackets = Some [\<lparr>bracket_open = [''begin''], bracket_close = [''end'']\<rparr>],
      onEnter = (\<lambda>a b c d. None)\<rparr>"

definition ex_regex_tokens :: "nat \<Rightarrow> nat \<Rightarrow> ITokens" where
  \<comment> \<open>a RegEx token over the first \<open>n\<close> characters, another token up to \<open>m\<close>\<close>
  "ex_regex_tokens n m =
     \<lparr>getCount = 2,
      getStandardTokenType = (\<lambda>i. if i = 0 then RegEx else Other),
      getStartOffset = (\<lambda>i. if i = 0 then 0 else int n),
      getEndOffset = (\<lambda>i. if i = 0 then int n else int m),
      tokens_getLineContent = []\<rparr>"

text \<open>
  A line of a third document, \<open><p>x} y;\<close>: its first three characters belong to \<open>ts\<close>,
  the rest to an embedded \<open>css\<close> region, and a selection from column 1 to column 5 that
  starts in the first region and ends in the second.
\<close>

definition ex_mixed_lineTokens :: LineTokens where
  "ex_mixed_lineTokens =
     \<lparr>getCount = 2, getStandardTokenType = (\<lambda>i. Other),
      getStartOffset = (\<lambda>i. if i = 0 then 0 else 3),
      getEndOffset = (\<lambda>i. if i = 0 then 3 else 8),
      tokens_getLineContent = ''<p>x} y;'',
      tokens_getLanguageId = (\<lambda>i. if i = 0 then ''ts'' else ''css'')\<rparr>"

definition ex_mixed_scope :: "int \<Rightarrow> ScopedLineTokens" where
  "ex_mixed_scope column =
     (if column - 1 < 3
      then \<lparr>getCount = 1, getStandardTokenType = (\<lambda>i. Other), getStartOffset = (\<lambda>i. 0),
            getEndOffset = (\<lambda>i. 3), tokens_getLineContent = ''<p>'',
            languageId = ''ts'', firstCharOffset = 0\<rparr>
      else \<lparr>getCount = 1, getStandardTokenType = (\<lambda>i. Other), getStartOffset = (\<lambda>i. 0),
            getEndOffset = (\<lambda>i. 5), tokens_getLineContent = ''x} y;'',
            languageId = ''css'', firstCharOffset = 3\<rparr>)"

definition ex_mixed_host :: indent_host where
  "ex_mixed_host =
     ex_host\<lparr>createScopedLineTokens := (\<lambda>lt offset. ex_mixed_scope (offset + 1)),
             getScopedLineTokens := (\<lambda>model lineNumber column. ex_mixed_scope column)\<rparr>"

definition ex_mixed_model :: ITextModel where
  "ex_mixed_model =
     \<lparr>tokenization_getLineTokens = (\<lambda>n. ex_mixed_lineTokens),
      tokenization_getLanguageId = ''ts'',
      tokenization_getLanguageIdAtPosition = (\<lambda>n c. if c - 1 < 3 then ''ts'' else ''css''),
      getLineContent = (\<lambda>n. ''<p>x} y;''),
      getLanguageId = ''ts'',
      getLanguageIdAtPosition = (\<lambda>n c. if c - 1 < 3 then ''ts'' else ''css''),
      getLineCount = 1\<rparr>"

definition ex_mixed_selection :: Range where
  "ex_mixed_selection = \<lparr>startLineNumber = 1, startColumn = 1, endLineNumber = 1, endColumn = 5\<rparr>"

section \<open>Properties of the indentation engine\<close>

text \<open>
  C8. Each of the four exported entry points that take an \<open>autoIndent\<close> strategy,
  \<open>getInheritIndentForLine\<close>, \<open>getGoodIndentForLine\<close>, \<open>getIndentForEnter\<close> and
  \<open>getIndentActionForType\<close>, returns null when \<open>autoIndent\<close> is below
  \<open>EditorAutoIndentStrategy.Full\<close>, whatever the model, line number, range or typed
  character.
\<close>

theorem below_Full_returns_null:
  assumes "autoIndent < Full h"
  shows "getInheritIndentForLine h autoIndent virtualModel lineNumber honorIntentialIndent lcs = None
       \<and> getGoodIndentForLine h autoIndent virtualModel langId lineNumber indentConverter lcs = None
       \<and> getIndentForEnter h autoIndent model rng indentConverter lcs = None
       \<and> getIndentActionForType h autoIndent model rng ch indentConverter lcs = None"
  using assms
  by (simp add: getInheritIndentForLine_def getGoodIndentForLine_def getIndentForEnter_def
      getIndentActionForType_def)

theorem below_Full_returns_null_witness:
  "(3::int) < Full ex_host
   \<and> getInheritIndentForLine ex_host 3 ex_model 3 False ex_lcs = None
   \<and> getGoodIndentForLine ex_host 3 ex_model ''ts'' 3 ex_converter ex_lcs = None
   \<and> getIndentForEnter ex_host 3 ex_model ex_range ex_converter ex_lcs = None
   \<and> getIndentActionForType ex_host 3 ex_model ex_range ''}'' ex_converter ex_lcs = None"
proof -
  have below: "(3::int) < Full ex_host"
    by (simp add: ex_host_def)
  from below_Full_returns_null [OF below, of ex_model 3 False ex_lcs "''ts''" ex_converter
      ex_model ex_range "''}''"] below
  show ?thesis by simp
qed

text \<open>
  C9. \<open>getIndentMetadata\<close> returns null exactly when the language of the model has no
  \<open>indentRulesSupport\<close> or the line number is below 1 or above the line count of the
  model; in every other case it returns the indent metadata that the rules compute from
  the content of that line.
\<close>

theorem getIndentMetadata_null_iff:
  "(getIndentMetadata model lineNumber lcs = None
      \<longleftrightarrow> indentRulesSupport (lcs (getLanguageId model)) = None
          \<or> lineNumber < 1 \<or> lineNumber > getLineCount model)
   \<and> (\<forall>rules. indentRulesSupport (lcs (getLanguageId model)) = Some rules
         \<and> 1 \<le> lineNumber \<and> lineNumber \<le> getLineCount model
       \<longrightarrow> getIndentMetadata model lineNumber lcs
             = Some (rules_getIndentMetadata rules (getLineContent model lineNumber)))"
proof (cases "indentRulesSupport (lcs (getLanguageId model))")
  case None
  then show ?thesis
    by (simp add: getIndentMetadata_def)
next
  case (Some rules)
  show ?thesis
  proof (cases "lineNumber < 1 \<or> lineNumber > getLineCount model")
    case True
    with Some show ?thesis
      by (auto simp: getIndentMetadata_def)
  next
    case False
    with Some show ?thesis
      by (simp add: getIndentMetadata_def)
  qed
qed

theorem getIndentMetadata_null_iff_witness:
  "indentRulesSupport (ex_lcs (getLanguageId ex_model)) = Some ex_rules
   \<and> (1::int) \<le> 1 \<and> 1 \<le> getLineCount ex_model
   \<and> getIndentMetadata ex_model 1 ex_lcs
       = Some (rules_getIndentMetadata ex_rules (getLineContent ex_model 1))
   \<and> getIndentMetadata ex_model 1 ex_lcs = Some 1
   \<and> getIndentMetadata ex_model 4 ex_lcs = None"
proof -
  have rules: "indentRulesSupport (ex_lcs (getLanguageId ex_model)) = Some ex_rules"
    by (simp add: ex_lcs_def ex_model_def)
  have count: "getLineCount ex_model = 3"
    by (simp add: ex_model_def)
  have one: "rules_getIndentMetadata ex_rules (getLineContent ex_model 1) = 1"
    by (simp add: ex_rules_def ex_model_def ex_lines_def)
  from getIndentMetadata_null_iff [of ex_model 1 ex_lcs] rules count
  have a: "getIndentMetadata ex_model 1 ex_lcs
             = Some (rules_getIndentMetadata ex_rules (getLineContent ex_model 1))"
    by simp
  from getIndentMetadata_null_iff [of ex_model 4 ex_lcs] count
  have b: "getIndentMetadata ex_model 4 ex_lcs = None"
    by simp
  from rules count a b one show ?thesis by simp
qed

lemma js_substr_split:
  assumes "0 \<le> n"
  shows "js_substr2 s 0 n @ js_substr1 s n = s"
proof -
  have start: "js_substr_start s n = min n (int (length s))"
    using assms by (simp add: js_substr_start_def)
  have "js_substr2 s 0 n = take (nat (min n (int (length s)))) s"
    using assms by (simp add: js_substr2_def js_substr_start_def Let_def max_def)
  moreover have "js_substr1 s n = drop (nat (min n (int (length s)))) s"
    by (simp add: js_substr1_def start)
  ultimately show ?thesis by simp
qed

text \<open>
  What \<open>getIndentActionForType\<close> does on every range: it returns a string only if the
  autoIndent strategy is at least Full, the scoped tokens start at offset 0, the scoped
  language has indent rules, and the text it takes for the text around the cursor does
  not match \<open>decreaseIndentPattern\<close> without \<open>ch\<close> but matches it with \<open>ch\<close> inserted. A
  returned string is the inherited indentation of the start line
  (\<open>getInheritIndentForLine\<close> without honouring intentional indentation), unshifted once
  unless the inherited action is \<open>Indent\<close>. For an empty range at a valid column the text
  it takes is the scoped line text.
\<close>

lemma getIndentActionForType_result:
  "(getIndentActionForType h autoIndent model rng ch indentConverter lcs \<noteq> None \<longrightarrow>
      \<not> autoIndent < Full h
      \<and> firstCharOffset (getScopedLineTokens h model (startLineNumber rng) (startColumn rng)) = 0
      \<and> (\<exists>rules.
            indentRulesSupport
              (lcs (languageId (getScopedLineTokens h model (startLineNumber rng) (startColumn rng))))
              = Some rules
            \<and> \<not> shouldDecrease rules (beforeTypeText h model rng @ afterTypeText h model rng)
            \<and> shouldDecrease rules
                 (beforeTypeText h model rng @ ch @ afterTypeText h model rng)))
   \<and> (\<forall>s. getIndentActionForType h autoIndent model rng ch indentConverter lcs = Some s \<longrightarrow>
         (\<exists>r. getInheritIndentForLine h autoIndent model (startLineNumber rng) False lcs = Some r
              \<and> s = (if action r = Some Indent then indentation r
                      else unshiftIndent indentConverter (indentation r))))
   \<and> (isEmpty h rng \<and> 1 \<le> startColumn rng
        \<and> firstCharOffset (getScopedLineTokens h model (startLineNumber rng) (startColumn rng)) = 0
      \<longrightarrow> beforeTypeText h model rng @ afterTypeText h model rng
            = tokens_getLineContent
                (getScopedLineTokens h model (startLineNumber rng) (startColumn rng)))"
proof (intro conjI impI allI)
  assume "getIndentActionForType h autoIndent model rng ch indentConverter lcs \<noteq> None"
  then show "\<not> autoIndent < Full h"
    by (auto simp: getIndentActionForType_def)
next
  assume "getIndentActionForType h autoIndent model rng ch indentConverter lcs \<noteq> None"
  then show "firstCharOffset (getScopedLineTokens h model (startLineNumber rng) (startColumn rng)) = 0"
    by (auto simp: getIndentActionForType_def Let_def split: if_splits)
next
  assume "getIndentActionForType h autoIndent model rng ch indentConverter lcs \<noteq> None"
  then show "\<exists>rules.
      indentRulesSupport
        (lcs (languageId (getScopedLineTokens h model (startLineNumber rng) (startColumn rng))))
        = Some rules
      \<and> \<not> shouldDecrease rules (beforeTypeText h model rng @ afterTypeText h model rng)
      \<and> shouldDecrease rules (beforeTypeText h model rng @ ch @ afterTypeText h model rng)"
    by (auto simp: getIndentActionForType_def Let_def split: if_splits option.splits)
next
  fix s
  assume "getIndentActionForType h autoIndent model rng ch indentConverter lcs = Some s"
  then show "\<exists>r. getInheritIndentForLine h autoIndent model (startLineNumber rng) False lcs = Some r
              \<and> s = (if action r = Some Indent then indentation r
                      else unshiftIndent indentConverter (indentation r))"
    by (auto simp: getIndentActionForType_def Let_def split: if_splits option.splits)
next
  assume a: "isEmpty h rng \<and> 1 \<le> startColumn rng
    \<and> firstCharOffset (getScopedLineTokens h model (startLineNumber rng) (startColumn rng)) = 0"
  then have "0 \<le> startColumn rng - 1" by simp
  from js_substr_split [OF this] a
  show "beforeTypeText h model rng @ afterTypeText h model rng
          = tokens_getLineContent
              (getScopedLineTokens h model (startLineNumber rng) (startColumn rng))"
    by (simp add: beforeTypeText_def afterTypeText_def)
qed

lemma getIndentActionForType_result_example:
  "getIndentActionForType ex_host 4 ex_model ex_range ''}'' ex_converter ex_lcs = Some ''  ''
   \<and> \<not> (4::int) < Full ex_host
   \<and> firstCharOffset (getScopedLineTokens ex_host ex_model 3 7) = 0
   \<and> indentRulesSupport (ex_lcs (languageId (getScopedLineTokens ex_host ex_model 3 7)))
       = Some ex_rules
   \<and> \<not> shouldDecrease ex_rules ''      ''
   \<and> shouldDecrease ex_rules ''      }''
   \<and> getInheritIndentForLine ex_host 4 ex_model 3 False ex_lcs
       = Some \<lparr>indentation = ''  '', action = Some Indent, line = Some 1\<rparr>
   \<and> getIndentActionForType ex_host 4 ex_model ex_range ''{'' ex_converter ex_lcs = None"
proof -
  have res: "getIndentActionForType ex_host 4 ex_model ex_range ''}'' ex_converter ex_lcs
               = Some ''  ''"
    by code_simp
  have inh: "getInheritIndentForLine ex_host 4 ex_model 3 False ex_lcs
               = Some \<lparr>indentation = ''  '', action = Some Indent, line = Some 1\<rparr>"
    by code_simp
  have rng: "startLineNumber ex_range = 3" "startColumn ex_range = 7"
    by (simp_all add: ex_range_def)
  have texts: "beforeTypeText ex_host ex_model ex_range = ''      ''"
    "afterTypeText ex_host ex_model ex_range = []"
    by code_simp+
  have no: "\<not> shouldDecrease ex_rules (''      '' @ ''{'')"
    by (simp add: ex_rules_def)
  have rules: "indentRulesSupport (ex_lcs (languageId (getScopedLineTokens ex_host ex_model 3 7)))
                 = Some ex_rules"
    by (simp add: ex_host_def ex_scoped_def ex_lcs_def)
  note main = getIndentActionForType_result
  from main [of ex_host 4 ex_model ex_range "''}''" ex_converter ex_lcs] res rng texts rules
  have yes: "\<not> (4::int) < Full ex_host
      \<and> firstCharOffset (getScopedLineTokens ex_host ex_model 3 7) = 0
      \<and> \<not> shouldDecrease ex_rules ''      '' \<and> shouldDecrease ex_rules ''      }''"
    by simp
  from main [of ex_host 4 ex_model ex_range "''{''" ex_converter ex_lcs] rng texts rules no
  have none: "getIndentActionForType ex_host 4 ex_model ex_range ''{'' ex_converter ex_lcs = None"
    by auto
  from res inh yes rules none show ?thesis by simp
qed

text \<open>
  When both ends of the range lie in scopes that start at the same offset, the text the
  function takes is the text around the cursor, and a string is returned only if that
  text does not match the decrease pattern without \<open>ch\<close> and matches it with \<open>ch\<close>.
\<close>

lemma getIndentActionForType_as_claimed:
  assumes "getIndentActionForType h autoIndent model rng ch indentConverter lcs \<noteq> None"
    and "isEmpty h rng \<longrightarrow> endLineNumber rng = startLineNumber rng \<and> endColumn rng = startColumn rng"
    and "firstCharOffset (getScopedLineTokens h model (endLineNumber rng) (endColumn rng))
         = firstCharOffset (getScopedLineTokens h model (startLineNumber rng) (startColumn rng))"
  shows "\<exists>rules.
      indentRulesSupport
        (lcs (languageId (getScopedLineTokens h model (startLineNumber rng) (startColumn rng))))
        = Some rules
      \<and> \<not> shouldDecrease rules (textAroundCursorAsClaimed h model rng [])
      \<and> shouldDecrease rules (textAroundCursorAsClaimed h model rng ch)"
proof -
  have same: "\<And>inserted. textAroundCursorAsClaimed h model rng inserted
                = beforeTypeText h model rng @ inserted @ afterTypeText h model rng"
    using assms(2,3)
    by (auto simp: textAroundCursorAsClaimed_def beforeTypeText_def afterTypeText_def Let_def)
  from assms(1) show ?thesis
    unfolding same
    by (auto simp: getIndentActionForType_def Let_def split: if_splits option.splits)
qed

text \<open>
  C1. By the specification \<open>getIndentActionForType\<close> returns a string only if the text
  around the cursor does not match \<open>decreaseIndentPattern\<close> without \<open>ch\<close> and matches it
  with \<open>ch\<close> inserted. For a selection that ends in another scope than it starts in, the
  function does not keep to this: it cuts the text of the end scope at the offset of the
  start scope. On the line \<open><p>x} y;\<close> with the selection from column 1 to column 5 and
  \<open>ch = '}'\<close>, the text around the selection is \<open>} y;\<close>, which matches the decrease
  pattern already; the function takes \<open>;\<close> for the text after the selection and returns
  the empty string.
\<close>

theorem getIndentActionForType_selection_across_scopes:
  "getIndentActionForType ex_mixed_host 4 ex_mixed_model ex_mixed_selection ''}'' ex_converter ex_lcs
     = Some []
   \<and> textAroundCursorAsClaimed ex_mixed_host ex_mixed_model ex_mixed_selection [] = ''} y;''
   \<and> indentRulesSupport
        (ex_lcs (languageId (getScopedLineTokens ex_mixed_host ex_mixed_model 1 1))) = Some ex_rules
   \<and> shouldDecrease ex_rules ''} y;''
   \<and> beforeTypeText ex_mixed_host ex_mixed_model ex_mixed_selection = []
   \<and> afterTypeText ex_mixed_host ex_mixed_model ex_mixed_selection = '';''"
proof (intro conjI)
  show "getIndentActionForType ex_mixed_host 4 ex_mixed_model ex_mixed_selection ''}''
          ex_converter ex_lcs = Some []"
    by code_simp
  show "textAroundCursorAsClaimed ex_mixed_host ex_mixed_model ex_mixed_selection [] = ''} y;''"
    by code_simp
  show "indentRulesSupport
          (ex_lcs (languageId (getScopedLineTokens ex_mixed_host ex_mixed_model 1 1)))
        = Some ex_rules"
    by (simp add: ex_mixed_host_def ex_mixed_scope_def ex_lcs_def)
  show "shouldDecrease ex_rules ''} y;''"
    by (simp add: ex_rules_def)
  show "beforeTypeText ex_mixed_host ex_mixed_model ex_mixed_selection = []"
    by code_simp
  show "afterTypeText ex_mixed_host ex_mixed_model ex_mixed_selection = '';''"
    by code_simp
qed

text \<open>
  C7. When \<open>autoIndent\<close> is at least Full and the scoped language has indent rules,
  \<open>getIndentForEnter\<close> returns a result. Inside embedded-language content (the scoped
  tokens start after offset 0 and the language of the first token of the line differs
  from the scoped language) its \<open>beforeEnter\<close> is the leading whitespace of the whole
  current line; otherwise it is the leading whitespace of the text of the line before the
  cursor position.
\<close>

theorem getIndentForEnter_beforeEnter:
  assumes "\<not> autoIndent < Full h"
    and "indentRulesSupport
           (lcs (languageId (createScopedLineTokens h
                   (tokenization_getLineTokens model (startLineNumber rng)) (startColumn rng - 1))))
         \<noteq> None"
  shows "\<exists>r. getIndentForEnter h autoIndent model rng indentConverter lcs = Some r
     \<and> beforeEnter r =
        (if firstCharOffset (createScopedLineTokens h
                (tokenization_getLineTokens model (startLineNumber rng)) (startColumn rng - 1)) > 0
            \<and> tokens_getLanguageId (tokenization_getLineTokens model (startLineNumber rng)) 0
                 \<noteq> languageId (createScopedLineTokens h
                      (tokenization_getLineTokens model (startLineNumber rng)) (startColumn rng - 1))
         then getLeadingWhitespace h
                (tokens_getLineContent (tokenization_getLineTokens model (startLineNumber rng)))
         else getLeadingWhitespace h
                (js_substring2
                   (tokens_getLineContent (tokenization_getLineTokens model (startLineNumber rng)))
                   0 (startColumn rng - 1)))"
proof -
  from assms(2) obtain rules where
    rules: "indentRulesSupport (lcs (languageId (enterScopedLineTokens h model rng))) = Some rules"
    by (auto simp: enterScopedLineTokens_def)
  have emb: "embeddedLanguage h model rng \<longleftrightarrow>
      firstCharOffset (createScopedLineTokens h
          (tokenization_getLineTokens model (startLineNumber rng)) (startColumn rng - 1)) > 0
      \<and> tokens_getLanguageId (tokenization_getLineTokens model (startLineNumber rng)) 0
           \<noteq> languageId (createScopedLineTokens h
                (tokenization_getLineTokens model (startLineNumber rng)) (startColumn rng - 1))"
    by (simp add: embeddedLanguage_def enterScopedLineTokens_def)
  have before: "\<not> embeddedLanguage h model rng \<Longrightarrow>
      beforeEnterText h model rng =
        js_substring2
          (tokens_getLineContent (tokenization_getLineTokens model (startLineNumber rng)))
          0 (startColumn rng - 1)"
    by (simp add: beforeEnterText_def Let_def)
  show ?thesis
  proof (cases "getInheritIndentForLine h autoIndent
                  (enterVirtualModel model rng (beforeEnterText h model rng))
                  (startLineNumber rng + 1) True lcs")
    case None
    with assms(1) rules before show ?thesis
      by (simp add: getIndentForEnter_def Let_def emb [symmetric])
  next
    case (Some afterEnterAction)
    with assms(1) rules before show ?thesis
      by (simp add: getIndentForEnter_def Let_def emb [symmetric])
  qed
qed

theorem getIndentForEnter_beforeEnter_witness:
  "\<not> (4::int) < Full ex_host
   \<and> indentRulesSupport
         (ex_lcs (languageId (createScopedLineTokens ex_host
            (tokenization_getLineTokens ex_model (startLineNumber ex_range))
            (startColumn ex_range - 1)))) \<noteq> None
   \<and> getIndentForEnter ex_host 4 ex_model ex_range ex_converter ex_lcs
       = Some \<lparr>beforeEnter = ''      '', afterEnter = ''      ''\<rparr>
   \<and> \<not> (4::int) < Full ex_embedded_host
   \<and> indentRulesSupport
         (ex_embedded_lcs (languageId (createScopedLineTokens ex_embedded_host
            (tokenization_getLineTokens ex_embedded_model (startLineNumber ex_embedded_range))
            (startColumn ex_embedded_range - 1)))) \<noteq> None
   \<and> (\<exists>r. getIndentForEnter ex_embedded_host 4 ex_embedded_model ex_embedded_range
              ex_converter ex_embedded_lcs = Some r
          \<and> beforeEnter r = ''    '')
   \<and> getLeadingWhitespace ex_embedded_host
        (js_substring2 ''    x'' 0 (startColumn ex_embedded_range - 1)) = ''   ''"
proof -
  have full: "\<not> (4::int) < Full ex_host" "\<not> (4::int) < Full ex_embedded_host"
    by (simp_all add: ex_host_def ex_embedded_host_def)
  have r1: "indentRulesSupport
         (ex_lcs (languageId (createScopedLineTokens ex_host
            (tokenization_getLineTokens ex_model (startLineNumber ex_range))
            (startColumn ex_range - 1)))) \<noteq> None"
    by (simp add: ex_host_def ex_scoped_def ex_lcs_def)
  have r2: "indentRulesSupport
         (ex_embedded_lcs (languageId (createScopedLineTokens ex_embedded_host
            (tokenization_getLineTokens ex_embedded_model (startLineNumber ex_embedded_range))
            (startColumn ex_embedded_range - 1)))) \<noteq> None"
    by (simp add: ex_embedded_host_def ex_embedded_scoped_def ex_embedded_lcs_def)
  have plain: "getIndentForEnter ex_host 4 ex_model ex_range ex_converter ex_lcs
                 = Some \<lparr>beforeEnter = ''      '', afterEnter = ''      ''\<rparr>"
    by code_simp
  have cond: "firstCharOffset (createScopedLineTokens ex_embedded_host
            (tokenization_getLineTokens ex_embedded_model (startLineNumber ex_embedded_range))
            (startColumn ex_embedded_range - 1)) > 0
      \<and> tokens_getLanguageId
           (tokenization_getLineTokens ex_embedded_model (startLineNumber ex_embedded_range)) 0
          \<noteq> languageId (createScopedLineTokens ex_embedded_host
            (tokenization_getLineTokens ex_embedded_model (startLineNumber ex_embedded_range))
            (startColumn ex_embedded_range - 1))"
    by (simp add: ex_embedded_host_def ex_embedded_scoped_def ex_embedded_model_def
        ex_embedded_lineTokens_def)
  have ws: "getLeadingWhitespace ex_embedded_host
       (tokens_getLineContent
          (tokenization_getLineTokens ex_embedded_model (startLineNumber ex_embedded_range)))
       = ''    ''"
    by (simp add: ex_embedded_host_def ex_host_def ex_embedded_model_def
        ex_embedded_lineTokens_def ex_leadingWhitespace_def)
  from getIndentForEnter_beforeEnter [where h = ex_embedded_host and autoIndent = 4
      and lcs = ex_embedded_lcs and model = ex_embedded_model and rng = ex_embedded_range
      and indentConverter = ex_converter, OF full(2) r2] cond ws
  have emb: "\<exists>r. getIndentForEnter ex_embedded_host 4 ex_embedded_model ex_embedded_range
              ex_converter ex_embedded_lcs = Some r
          \<and> beforeEnter r = ''    ''"
    by simp
  have other: "getLeadingWhitespace ex_embedded_host
        (js_substring2 ''    x'' 0 (startColumn ex_embedded_range - 1)) = ''   ''"
    by code_simp
  from full r1 r2 plain emb other show ?thesis by blast
qed

section \<open>Properties of the hover controller\<close>

subsection \<open>The ranges of a hover\<close>

lemma computeHoverRanges_step_apply:
  "computeHoverRanges_step h l b (hl, rsc, force) m =
     (plusRange h hl (part_range m),
      (if startLineNumber (part_range m) = l \<and> endLineNumber (part_range m) = l
       then max (min rsc (startColumn (part_range m))) b else rsc),
      (if forceShowAtRange m then Some (part_range m) else force))"
  by (simp add: computeHoverRanges_step_def)

lemma computeHoverRanges_fold_highlight:
  "fst (foldl (computeHoverRanges_step h l b) (hl, rsc, force) msgs)
     = foldl (plusRange h) hl (map part_range msgs)"
  by (induction msgs arbitrary: hl rsc force) (simp_all add: computeHoverRanges_step_apply)

lemma computeHoverRanges_fold_force:
  "snd (snd (foldl (computeHoverRanges_step h l b) (hl, rsc, force) msgs))
     = (case filter forceShowAtRange msgs of
          [] \<Rightarrow> force
        | fs \<Rightarrow> Some (part_range (last fs)))"
proof (induction msgs arbitrary: hl rsc force)
  case Nil
  then show ?case by simp
next
  case (Cons m msgs)
  show ?case
  proof (cases "forceShowAtRange m")
    case True
    then show ?thesis
      by (simp add: computeHoverRanges_step_apply Cons.IH split: list.splits)
  next
    case False
    then show ?thesis
      by (simp add: computeHoverRanges_step_apply Cons.IH)
  qed
qed

text \<open>
  C4. For a non-empty list of hover messages \<open>computeHoverRanges\<close> returns; its
  \<open>highlightRange\<close> is the range of the first message joined by \<open>Range.plusRange\<close> with
  the ranges of all messages in turn, and its \<open>showAtPosition\<close> is the start position of
  the range of the last message whose \<open>forceShowAtRange\<close> flag is set or, when no message
  sets it, the position at the start line and start column of the anchor.
\<close>

theorem computeHoverRanges_nonempty:
  assumes "msgs \<noteq> []"
  shows "\<exists>r. computeHoverRanges h ed anchorRange msgs = Returns r
     \<and> highlightRange r = foldl (plusRange h) (part_range (hd msgs)) (map part_range msgs)
     \<and> showAtPosition r =
         (case filter forceShowAtRange msgs of
            [] \<Rightarrow> \<lparr>pos_lineNumber = startLineNumber anchorRange,
                   pos_column = startColumn anchorRange\<rparr>
          | fs \<Rightarrow> getStartPosition h (part_range (last fs)))"
proof -
  from assms obtain m0 rest where msgs: "msgs = m0 # rest"
    by (cases msgs) auto
  obtain hl rsc force where acc:
    "foldl (computeHoverRanges_step h (startLineNumber anchorRange)
              (startColumnBoundary ed anchorRange))
       (part_range m0, startColumn anchorRange, None) msgs = (hl, rsc, force)"
    by (cases "foldl (computeHoverRanges_step h (startLineNumber anchorRange)
              (startColumnBoundary ed anchorRange))
       (part_range m0, startColumn anchorRange, None) msgs") auto
  from computeHoverRanges_fold_highlight
         [of h "startLineNumber anchorRange" "startColumnBoundary ed anchorRange"
            "part_range m0" "startColumn anchorRange" None msgs] acc
  have hl: "hl = foldl (plusRange h) (part_range m0) (map part_range msgs)"
    by simp
  from computeHoverRanges_fold_force
         [of h "startLineNumber anchorRange" "startColumnBoundary ed anchorRange"
            "part_range m0" "startColumn anchorRange" None msgs] acc
  have force: "force = (case filter forceShowAtRange msgs of
                          [] \<Rightarrow> None | fs \<Rightarrow> Some (part_range (last fs)))"
    by simp
  from acc have "computeHoverRanges h ed anchorRange msgs = Returns
     \<lparr>showAtPosition =
        (case force of
           Some r \<Rightarrow> getStartPosition h r
         | None \<Rightarrow> \<lparr>pos_lineNumber = startLineNumber anchorRange,
                    pos_column = startColumn anchorRange\<rparr>),
      showAtSecondaryPosition =
        (case force of
           Some r \<Rightarrow> getStartPosition h r
         | None \<Rightarrow> \<lparr>pos_lineNumber = startLineNumber anchorRange, pos_column = rsc\<rparr>),
      highlightRange = hl\<rparr>"
    by (simp add: computeHoverRanges_def msgs)
  with hl force msgs show ?thesis
    by (auto split: list.splits)
qed

theorem computeHoverRanges_nonempty_witness:
  "[ex_part 0 ex_word False, ex_part 1 ex_other_word True] \<noteq> []
   \<and> (\<exists>r. computeHoverRanges ex_hover_host ex_editor ex_word
              [ex_part 0 ex_word False, ex_part 1 ex_other_word True] = Returns r
          \<and> highlightRange r
              = \<lparr>startLineNumber = 2, startColumn = 5, endLineNumber = 2, endColumn = 15\<rparr>
          \<and> showAtPosition r = \<lparr>pos_lineNumber = 2, pos_column = 12\<rparr>)
   \<and> (\<exists>r. computeHoverRanges ex_hover_host ex_editor ex_word
              [ex_part 0 ex_word False, ex_part 1 ex_other_word False] = Returns r
          \<and> showAtPosition r = \<lparr>pos_lineNumber = 2, pos_column = 5\<rparr>)"
proof -
  have ne: "[ex_part 0 ex_word False, ex_part 1 ex_other_word True] \<noteq> []"
    "[ex_part 0 ex_word False, ex_part 1 ex_other_word False] \<noteq> []"
    by simp_all
  have forced: "\<exists>r. computeHoverRanges ex_hover_host ex_editor ex_word
              [ex_part 0 ex_word False, ex_part 1 ex_other_word True] = Returns r
          \<and> highlightRange r
              = \<lparr>startLineNumber = 2, startColumn = 5, endLineNumber = 2, endColumn = 15\<rparr>
          \<and> showAtPosition r = \<lparr>pos_lineNumber = 2, pos_column = 12\<rparr>"
    using computeHoverRanges_nonempty [OF ne(1), of ex_hover_host ex_editor ex_word]
    by (simp add: ex_hover_host_def ex_part_def ex_plusRange_def ex_word_def ex_other_word_def)
  have free: "\<exists>r. computeHoverRanges ex_hover_host ex_editor ex_word
              [ex_part 0 ex_word False, ex_part 1 ex_other_word False] = Returns r
          \<and> showAtPosition r = \<lparr>pos_lineNumber = 2, pos_column = 5\<rparr>"
    using computeHoverRanges_nonempty [OF ne(2), of ex_hover_host ex_editor ex_word]
    by (auto simp: ex_hover_host_def ex_part_def ex_word_def)
  from ne forced free show ?thesis by blast
qed

subsection \<open>Results that arrive while a complete result is shown\<close>

text \<open>
  C5. While the widget is visible (it has a position) and the current result is
  complete, \<open>_withResult\<close> ignores an incoming result that is not complete: it returns
  and leaves the whole state of the controller, the current result and the widget
  included, as it was. In the same situation it also leaves the state as it was when
  \<open>insistOnKeepingHoverVisible\<close> is set and the incoming complete result has no messages,
  so the previous messages are kept.
\<close>

theorem withResult_keeps_complete_result:
  assumes "widget_position h (widget s) \<noteq> None"
    and "currentResult s = Some cur"
    and "isComplete cur"
  shows "(\<not> isComplete hoverResult \<longrightarrow> withResult h hoverResult s = (Returns (), s))
     \<and> (isComplete hoverResult \<and> computer_insistOnKeepingHoverVisible s
          \<and> messages hoverResult = []
        \<longrightarrow> withResult h hoverResult s = (Returns (), s))"
proof (intro conjI impI)
  from assms have visible: "widget_position h (widget s) \<noteq> None
      \<and> (case currentResult s of None \<Rightarrow> False | Some cur \<Rightarrow> isComplete cur)"
    by simp
  {
    assume "\<not> isComplete hoverResult"
    with visible show "withResult h hoverResult s = (Returns (), s)"
      by (simp add: withResult_def)
  next
    assume "isComplete hoverResult \<and> computer_insistOnKeepingHoverVisible s
            \<and> messages hoverResult = []"
    with visible show "withResult h hoverResult s = (Returns (), s)"
      by (simp add: withResult_def)
  }
qed

theorem withResult_keeps_complete_result_witness:
  "widget_position ex_hover_host (widget ex_shown) \<noteq> None
   \<and> currentResult ex_shown = Some ex_shown_result
   \<and> isComplete ex_shown_result
   \<and> withResult ex_hover_host (ex_shown_result\<lparr>result_ref := 7, isComplete := False\<rparr>) ex_shown
       = (Returns (), ex_shown)
   \<and> withResult ex_hover_host (ex_shown_result\<lparr>result_ref := 7, messages := []\<rparr>)
        (ex_shown\<lparr>computer_insistOnKeepingHoverVisible := True\<rparr>)
       = (Returns (), ex_shown\<lparr>computer_insistOnKeepingHoverVisible := True\<rparr>)"
proof -
  have pos: "widget ex_shown = Some \<lparr>pos_lineNumber = 2, pos_column = 5\<rparr>"
    unfolding ex_shown_def by code_simp
  have cur: "currentResult ex_shown = Some ex_shown_result"
    unfolding ex_shown_def by code_simp
  have vis: "widget_position ex_hover_host (widget ex_shown) \<noteq> None"
    by (simp add: pos ex_hover_host_def)
  have compl: "isComplete ex_shown_result"
    by (simp add: ex_shown_result_def)
  from withResult_keeps_complete_result [OF vis cur compl,
      of "ex_shown_result\<lparr>result_ref := 7, isComplete := False\<rparr>"]
  have partial: "withResult ex_hover_host
        (ex_shown_result\<lparr>result_ref := 7, isComplete := False\<rparr>) ex_shown = (Returns (), ex_shown)"
    by simp
  let ?t = "ex_shown\<lparr>computer_insistOnKeepingHoverVisible := True\<rparr>"
  have vis': "widget_position ex_hover_host (widget ?t) \<noteq> None"
    using vis by simp
  have cur': "currentResult ?t = Some ex_shown_result"
    using cur by simp
  from withResult_keeps_complete_result [OF vis' cur' compl,
      of "ex_shown_result\<lparr>result_ref := 7, messages := []\<rparr>"] compl
  have empty: "withResult ex_hover_host (ex_shown_result\<lparr>result_ref := 7, messages := []\<rparr>) ?t
                 = (Returns (), ?t)"
    by simp
  from vis cur compl partial empty show ?thesis by blast
qed

subsection \<open>One render pass\<close>

lemma renderParticipant_apply:
  "renderParticipant hps (r, f, a, c) p =
     (r @ participantEntries hps p,
      snd (renderParticipant hps (r, f, a, c) p))"
  by (simp add: renderParticipant_def participantEntries_def Let_def)

lemma render_fold_entries:
  "fst (foldl (renderParticipant hps) (r, f, a, c) ps)
     = r @ concat (map (participantEntries hps) ps)"
proof (induction ps arbitrary: r f a c)
  case Nil
  then show ?case by simp
next
  case (Cons p ps)
  obtain f' a' c' where rest: "snd (renderParticipant hps (r, f, a, c) p) = (f', a', c')"
    by (cases "snd (renderParticipant hps (r, f, a, c) p)") auto
  have "renderParticipant hps (r, f, a, c) p = (r @ participantEntries hps p, f', a', c')"
    using renderParticipant_apply [of hps r f a c p] rest by simp
  then show ?case
    by (simp add: Cons.IH)
qed

lemma participantEntries_parts:
  "map hoverPart (participantEntries hps p) = filter (\<lambda>msg. owner msg = participant_id p) hps"
  by (simp add: participantEntries_def Let_def comp_def case_prod_unfold)

lemma participantEntries_participant:
  "rp \<in> set (participantEntries hps p) \<Longrightarrow> isRenderedHoverPart rp \<and> participant rp = p"
  by (auto simp: participantEntries_def Let_def)

lemma sorted_entries:
  assumes "sorted (map hoverOrdinal ps)"
  shows "sorted (map (\<lambda>rp. hoverOrdinal (participant rp))
                   (concat (map (participantEntries hps) ps)))"
  using assms
proof (induction ps)
  case Nil
  then show ?case by simp
next
  case (Cons p ps)
  have here: "\<forall>rp \<in> set (participantEntries hps p). hoverOrdinal (participant rp) = hoverOrdinal p"
    using participantEntries_participant by blast
  have later: "\<forall>rp \<in> set (concat (map (participantEntries hps) ps)).
                 hoverOrdinal p \<le> hoverOrdinal (participant rp)"
    using Cons.prems participantEntries_participant by fastforce
  have "sorted (map (\<lambda>rp. hoverOrdinal (participant rp)) (participantEntries hps p))"
    using here by (simp add: sorted_iff_nth_mono_less)
  with Cons here later show ?case
    by (auto simp: sorted_append)
qed

lemma all_entries_hover_parts:
  "list_all isRenderedHoverPart (concat (map (participantEntries hps) ps))"
  using participantEntries_participant by (fastforce simp: list_all_iff)

lemma takeWhile_all_append:
  "list_all P xs \<Longrightarrow> takeWhile P (xs @ ys) = xs @ takeWhile P ys"
  by (induction xs) auto

lemma dropWhile_all_append:
  "list_all P xs \<Longrightarrow> dropWhile P (xs @ ys) = dropWhile P ys"
  by (induction xs) auto

lemma renderedInOrder_entries:
  assumes "sorted (map hoverOrdinal ps)"
    and "sb = [] \<or> sb = [RenderedHoverStatusBar e]"
  shows "renderedInOrder (concat (map (participantEntries hps) ps) @ sb)"
proof -
  let ?es = "concat (map (participantEntries hps) ps)"
  have tw: "takeWhile isRenderedHoverPart (?es @ sb) = ?es"
    using assms(2) takeWhile_all_append [OF all_entries_hover_parts, of hps ps sb] by auto
  have dw: "dropWhile isRenderedHoverPart (?es @ sb) = sb"
    using assms(2) dropWhile_all_append [OF all_entries_hover_parts, of hps ps sb] by auto
  from assms show ?thesis
    unfolding renderedInOrder_def tw dw
    using sorted_entries [of ps hps] by auto
qed

subsection \<open>What each method leaves alone\<close>

lemma renderHoverPartsInFragment_frame:
  "participants (snd (renderHoverPartsInFragment hps s)) = participants s"
  "hoverOperation (snd (renderHoverPartsInFragment hps s)) = hoverOperation s"
  "computer_anchor (snd (renderHoverPartsInFragment hps s)) = computer_anchor s"
  by (simp_all add: renderHoverPartsInFragment_def split: prod.splits)

lemma renderHoverPartsInFragment_parts:
  "\<exists>sb. (sb = [] \<or> sb = [RenderedHoverStatusBar (Some StatusBarElement)])
     \<and> renderedParts (snd (renderHoverPartsInFragment hps s))
         = concat (map (participantEntries hps) (participants s)) @ sb"
proof -
  obtain r f a c where w: "renderHoverPartsWithContext s hps = (r, f, a, c)"
    by (cases "renderHoverPartsWithContext s hps") auto
  from render_fold_entries [of hps "[]" "[]" 0 "colorWidget s" "participants s"] w
  have r: "r = concat (map (participantEntries hps) (participants s))"
    by (simp add: renderHoverPartsWithContext_def)
  show ?thesis
    by (cases "a = 0") (simp_all add: renderHoverPartsInFragment_def w r)
qed

lemma renderHoverParts_ctl_frame:
  "participants (snd (renderHoverParts_ctl h anchor hps s)) = participants s"
  "hoverOperation (snd (renderHoverParts_ctl h anchor hps s)) = hoverOperation s"
  "computer_anchor (snd (renderHoverParts_ctl h anchor hps s)) = computer_anchor s"
  "renderedParts (snd (renderHoverParts_ctl h anchor hps s))
     = renderedParts (snd (renderHoverPartsInFragment hps s))"
  using renderHoverPartsInFragment_frame [of hps s]
  by (auto simp: renderHoverParts_ctl_def split: prod.splits outcome.splits)

lemma ordered_render:
  assumes "sorted (map hoverOrdinal (participants s))"
  shows "ordered (snd (renderHoverParts_ctl h anchor hps s))"
proof -
  from renderHoverPartsInFragment_parts [of hps s] obtain sb where
    sb: "sb = [] \<or> sb = [RenderedHoverStatusBar (Some StatusBarElement)]"
    and parts: "renderedParts (snd (renderHoverPartsInFragment hps s))
                  = concat (map (participantEntries hps) (participants s)) @ sb"
    by blast
  from renderedInOrder_entries [OF assms sb, of hps] parts assms show ?thesis
    by (simp add: ordered_def renderHoverParts_ctl_frame)
qed

lemma setCurrentResult_frame:
  "participants (snd (setCurrentResult h r s)) = participants s"
  "hoverOperation (snd (setCurrentResult h r s)) = hoverOperation s"
  "computer_anchor (snd (setCurrentResult h r s)) = computer_anchor s"
  by (auto simp: setCurrentResult_def renderHoverParts_ctl_frame split: option.splits)

lemma ordered_setCurrentResult:
  assumes "ordered s"
  shows "ordered (snd (setCurrentResult h r s))"
proof -
  have srt: "\<And>x. sorted (map hoverOrdinal (participants (s\<lparr>currentResult := x\<rparr>)))"
    using assms by (simp add: ordered_def)
  show ?thesis
    using assms ordered_render [OF srt]
    by (auto simp: setCurrentResult_def ordered_def split: option.splits)
qed

lemma startHoverOperationIfNecessary_frame:
  "participants (startHoverOperationIfNecessary h a m src f i s) = participants s"
  "renderedParts (startHoverOperationIfNecessary h a m src f i s) = renderedParts s"
  by (simp_all add: startHoverOperationIfNecessary_def)

lemma startHoverOperationIfNecessary_calls:
  "hoverOperation (startHoverOperationIfNecessary h a m src f i s) = hoverOperation s
   \<or> hoverOperation (startHoverOperationIfNecessary h a m src f i s)
       = hoverOperation s @ [Cancel, Start m]"
  by (simp add: startHoverOperationIfNecessary_def)

lemma ordered_start:
  "ordered s \<Longrightarrow> ordered (startHoverOperationIfNecessary h a m src f i s)"
  by (simp add: ordered_def startHoverOperationIfNecessary_frame)

lemma withResult_frame:
  "participants (snd (withResult h r s)) = participants s"
  "hoverOperation (snd (withResult h r s)) = hoverOperation s"
  by (simp_all add: withResult_def setCurrentResult_frame)

lemma ordered_withResult: "ordered s \<Longrightarrow> ordered (snd (withResult h r s))"
  by (simp add: withResult_def ordered_setCurrentResult)

lemma onResult_frame:
  "hoverOperation (snd (onResult h r s)) = hoverOperation s"
  by (simp add: onResult_def withResult_frame split: option.splits)

lemma ordered_onResult: "ordered s \<Longrightarrow> ordered (snd (onResult h r s))"
proof -
  assume a: "ordered s"
  then have "ordered (s\<lparr>nextRef := Suc (nextRef s)\<rparr>)"
    by (simp add: ordered_def)
  then show ?thesis
    using a by (auto simp: onResult_def intro: ordered_withResult split: option.splits)
qed

lemma onTokenizationChange_frame:
  "hoverOperation (snd (onTokenizationChange h s)) = hoverOperation s"
  by (simp add: onTokenizationChange_def setCurrentResult_frame)

lemma ordered_onTokenizationChange: "ordered s \<Longrightarrow> ordered (snd (onTokenizationChange h s))"
  by (simp add: onTokenizationChange_def ordered_setCurrentResult)

lemma hide_calls:
  "hoverOperation (snd (hide h s)) = hoverOperation s @ [Cancel]"
  "computer_anchor (snd (hide h s)) = None"
  "fst (hide h s) = Returns ()"
  by (auto simp: hide_def setCurrentResult_frame setCurrentResult_def sameResult_def
      split: option.splits)

lemma ordered_hide: "ordered s \<Longrightarrow> ordered (snd (hide h s))"
proof -
  assume "ordered s"
  then have "ordered (s\<lparr>computer_anchor := None, hoverOperation := hoverOperation s @ [Cancel]\<rparr>)"
    by (simp add: ordered_def)
  then show ?thesis
    by (simp add: hide_def ordered_setCurrentResult)
qed

lemma ordered_nextRef: "ordered (s\<lparr>nextRef := n\<rparr>) = ordered s"
  by (simp add: ordered_def)

lemma snd_then_do:
  "snd (then_do m f) = (case fst m of Returns u \<Rightarrow> snd (f (snd m)) | Throws e \<Rightarrow> snd m)"
  by (cases m; cases "fst m") auto

lemma startHoverOperationIfNecessary_calls_after:
  assumes "hoverOperation t = hoverOperation s"
  shows "hoverOperation (startHoverOperationIfNecessary h a m src f i t) = hoverOperation s
     \<or> hoverOperation (startHoverOperationIfNecessary h a m src f i t)
         = hoverOperation s @ [Cancel, Start m]"
  using assms by (simp add: startHoverOperationIfNecessary_def)

lemma startShowingOrUpdateHover_calls:
  "hoverOperation (snd (startShowingOrUpdateHover h anchor mode source focus mouseEvent s))
     = hoverOperation s
   \<or> hoverOperation (snd (startShowingOrUpdateHover h anchor mode source focus mouseEvent s))
       = hoverOperation s @ [Cancel, Start mode]"
proof -
  have set1: "\<And>r. hoverOperation (snd (setCurrentResult h r s)) = hoverOperation s"
    by (simp add: setCurrentResult_frame)
  have set2: "\<And>r n. hoverOperation (snd (setCurrentResult h r (s\<lparr>nextRef := n\<rparr>)))
                = hoverOperation s"
    by (simp add: setCurrentResult_frame)
  have a: "\<And>a i. hoverOperation (startHoverOperationIfNecessary h a mode source focus i s)
              = hoverOperation s
          \<or> hoverOperation (startHoverOperationIfNecessary h a mode source focus i s)
              = hoverOperation s @ [Cancel, Start mode]"
    by (rule startHoverOperationIfNecessary_calls_after) simp
  have b: "\<And>a i r. hoverOperation (startHoverOperationIfNecessary h a mode source focus i
                 (snd (setCurrentResult h r s))) = hoverOperation s
          \<or> hoverOperation (startHoverOperationIfNecessary h a mode source focus i
                 (snd (setCurrentResult h r s))) = hoverOperation s @ [Cancel, Start mode]"
    by (rule startHoverOperationIfNecessary_calls_after) (rule set1)
  have c: "\<And>a i r n. hoverOperation (startHoverOperationIfNecessary h a mode source focus i
                 (snd (setCurrentResult h r (s\<lparr>nextRef := n\<rparr>)))) = hoverOperation s
          \<or> hoverOperation (startHoverOperationIfNecessary h a mode source focus i
                 (snd (setCurrentResult h r (s\<lparr>nextRef := n\<rparr>))))
               = hoverOperation s @ [Cancel, Start mode]"
    by (rule startHoverOperationIfNecessary_calls_after) (rule set2)
  show ?thesis
    using a b c
    by (simp add: startShowingOrUpdateHover_def snd_then_do set1 set2
        split: option.splits outcome.splits)
qed

lemma ordered_then_do:
  assumes "ordered (snd m)" and "\<And>t. ordered t \<Longrightarrow> ordered (snd (f t))"
  shows "ordered (snd (then_do m f))"
  using assms by (simp add: snd_then_do split: outcome.splits)

lemma ordered_startShowingOrUpdateHover:
  assumes "ordered s"
  shows "ordered (snd (startShowingOrUpdateHover h anchor mode source focus mouseEvent s))"
proof -
  have set1: "\<And>r. ordered (snd (setCurrentResult h r s))"
    using assms by (rule ordered_setCurrentResult)
  have set2: "\<And>r n. ordered (snd (setCurrentResult h r (s\<lparr>nextRef := n\<rparr>)))"
    using assms by (simp add: ordered_setCurrentResult ordered_nextRef)
  show ?thesis
    using assms set1 set2
    by (simp add: startShowingOrUpdateHover_def snd_then_do ordered_start
        split: option.splits outcome.splits)
qed

lemma showsOrWillShow_calls:
  "hoverOperation (snd (showsOrWillShow h mouseEvent s)) = hoverOperation s
   \<or> hoverOperation (snd (showsOrWillShow h mouseEvent s))
       = hoverOperation s @ [Cancel, Start Delayed]"
  using startShowingOrUpdateHover_calls [of h _ Delayed Mouse False "Some mouseEvent" s]
  by (simp add: showsOrWillShow_def split: list.splits)

lemma ordered_showsOrWillShow:
  "ordered s \<Longrightarrow> ordered (snd (showsOrWillShow h mouseEvent s))"
  by (simp add: showsOrWillShow_def ordered_startShowingOrUpdateHover split: list.splits)

lemma fetchesInFlight_append:
  "fetchesInFlight (calls @ [Cancel]) = 0"
  "fetchesInFlight (calls @ [Cancel, Start m]) = 1"
  by (simp_all add: fetchesInFlight_def)

lemma handle_calls:
  "hoverOperation (handle h s ev) = hoverOperation s
   \<or> hoverOperation (handle h s ev) = hoverOperation s @ [Cancel]
   \<or> (\<exists>m. hoverOperation (handle h s ev) = hoverOperation s @ [Cancel, Start m])"
proof (cases ev)
  case (ShowsOrWillShow mouseEvent)
  then show ?thesis
    using showsOrWillShow_calls [of h mouseEvent s] by (auto simp: handle_def)
next
  case (StartShowingAtRange rng mode source focus)
  then show ?thesis
    using startShowingOrUpdateHover_calls
            [of h "Some (HoverRangeAnchor 0 rng None None)" mode source focus None s]
    by (auto simp: handle_def startShowingAtRange_def)
next
  case Hide
  then show ?thesis by (simp add: handle_def hide_calls)
next
  case (OnResult result)
  then show ?thesis by (simp add: handle_def onResult_frame)
next
  case OnTokenizationChange
  then show ?thesis by (simp add: handle_def onTokenizationChange_frame)
qed

lemma ordered_handle: "ordered s \<Longrightarrow> ordered (handle h s ev)"
  by (cases ev)
     (simp_all add: handle_def ordered_showsOrWillShow startShowingAtRange_def
        ordered_startShowingOrUpdateHover ordered_hide ordered_onResult
        ordered_onTokenizationChange)

lemma fetches_handle:
  "atMostOneFetch (hoverOperation s) \<Longrightarrow> atMostOneFetch (hoverOperation (handle h s ev))"
  using handle_calls [of h s ev] by (auto simp: atMostOneFetch_def fetchesInFlight_append)

lemma fetches_run:
  "atMostOneFetch (hoverOperation s) \<Longrightarrow> atMostOneFetch (hoverOperation (foldl (handle h) s evs))"
  by (induction evs arbitrary: s) (simp_all add: fetches_handle)

lemma ordered_run: "ordered s \<Longrightarrow> ordered (foldl (handle h) s evs)"
  by (induction evs arbitrary: s) (simp_all add: ordered_handle)

lemma ordered_constructor: "ordered (constructor ed w instances computer)"
  by (simp add: ordered_def constructor_def renderedInOrder_def)

subsection \<open>Cancel and replace\<close>

text \<open>
  C2. When \<open>_startHoverOperationIfNecessary\<close> is asked for an anchor that differs from
  the anchor of the computer (or the computer has none), it calls \<open>cancel()\<close> on the hover
  operation and then \<open>start(mode)\<close>, and the anchor becomes the anchor of the computer;
  when the anchor equals the anchor of the computer it changes nothing and starts
  nothing. \<open>hide()\<close> returns, calls \<open>cancel()\<close> and clears the anchor of the computer.
  Whatever events a controller handles after its construction, at most one fetch is in
  flight: at most one \<open>start\<close> follows the last \<open>cancel\<close>.
\<close>

theorem cancel_and_replace:
  "(\<not> (case computer_anchor s of None \<Rightarrow> False | Some a \<Rightarrow> anchor_equals h a anchor) \<longrightarrow>
      hoverOperation (startHoverOperationIfNecessary h anchor mode source focus insist s)
        = hoverOperation s @ [Cancel, Start mode]
      \<and> computer_anchor (startHoverOperationIfNecessary h anchor mode source focus insist s)
          = Some anchor)
   \<and> ((case computer_anchor s of None \<Rightarrow> False | Some a \<Rightarrow> anchor_equals h a anchor) \<longrightarrow>
        startHoverOperationIfNecessary h anchor mode source focus insist s = s)
   \<and> fst (hide h s) = Returns ()
   \<and> hoverOperation (snd (hide h s)) = hoverOperation s @ [Cancel]
   \<and> computer_anchor (snd (hide h s)) = None
   \<and> fetchesInFlight (hoverOperation (foldl (handle h) (constructor ed w instances computer) evs)) \<le> 1"
proof -
  have "atMostOneFetch (hoverOperation (constructor ed w instances computer))"
    by (simp add: atMostOneFetch_def fetchesInFlight_def constructor_def)
  from fetches_run [OF this]
  have "fetchesInFlight (hoverOperation (foldl (handle h) (constructor ed w instances computer) evs)) \<le> 1"
    by (simp add: atMostOneFetch_def)
  then show ?thesis
    by (simp add: startHoverOperationIfNecessary_def hide_calls)
qed

theorem cancel_and_replace_witness:
  "hoverOperation (foldl (handle ex_hover_host) ex_controller ex_events)
     = [Cancel, Start Delayed, Cancel, Start Delayed]
   \<and> fetchesInFlight (hoverOperation (foldl (handle ex_hover_host) ex_controller ex_events)) = 1
   \<and> computer_anchor (foldl (handle ex_hover_host) ex_controller (take 1 ex_events))
       = Some (HoverRangeAnchor 0 ex_word (Some 40) (Some 30))
   \<and> startHoverOperationIfNecessary ex_hover_host (HoverRangeAnchor 0 ex_word None None)
        Immediate Keyboard True False (foldl (handle ex_hover_host) ex_controller (take 1 ex_events))
       = foldl (handle ex_hover_host) ex_controller (take 1 ex_events)
   \<and> hoverOperation (startHoverOperationIfNecessary ex_hover_host
          (HoverRangeAnchor 0 ex_other_word None None) Immediate Keyboard True False
          (foldl (handle ex_hover_host) ex_controller (take 1 ex_events)))
       = [Cancel, Start Delayed, Cancel, Start Immediate]
   \<and> hoverOperation (snd (hide ex_hover_host (foldl (handle ex_hover_host) ex_controller ex_events)))
       = [Cancel, Start Delayed, Cancel, Start Delayed, Cancel]"
proof -
  let ?s1 = "foldl (handle ex_hover_host) ex_controller (take 1 ex_events)"
  let ?s3 = "foldl (handle ex_hover_host) ex_controller ex_events"
  have calls: "hoverOperation ?s3 = [Cancel, Start Delayed, Cancel, Start Delayed]"
    by code_simp
  have calls1: "hoverOperation ?s1 = [Cancel, Start Delayed]"
    by code_simp
  have anchor1: "computer_anchor ?s1 = Some (HoverRangeAnchor 0 ex_word (Some 40) (Some 30))"
    by code_simp
  have same: "(case computer_anchor ?s1 of None \<Rightarrow> False
               | Some a \<Rightarrow> anchor_equals ex_hover_host a (HoverRangeAnchor 0 ex_word None None))"
    unfolding anchor1 by (simp add: ex_hover_host_def HoverRangeAnchor_def)
  have other: "\<not> (case computer_anchor ?s1 of None \<Rightarrow> False
               | Some a \<Rightarrow> anchor_equals ex_hover_host a
                            (HoverRangeAnchor 0 ex_other_word None None))"
    unfolding anchor1
    by (simp add: ex_hover_host_def HoverRangeAnchor_def ex_word_def ex_other_word_def)
  note main = cancel_and_replace [where h = ex_hover_host and ed = ex_editor and w = None
      and instances = "[ex_markdown, ex_marker]" and computer = ex_computer and mode = Immediate and source = Keyboard
      and focus = True and insist = False]
  from main [where s = ?s1 and anchor = "HoverRangeAnchor 0 ex_word None None" and evs = ex_events]
    same
  have kept: "startHoverOperationIfNecessary ex_hover_host (HoverRangeAnchor 0 ex_word None None)
        Immediate Keyboard True False ?s1 = ?s1"
    by blast
  from main [where s = ?s1 and anchor = "HoverRangeAnchor 0 ex_other_word None None"
      and evs = ex_events] other calls1
  have replaced: "hoverOperation (startHoverOperationIfNecessary ex_hover_host
          (HoverRangeAnchor 0 ex_other_word None None) Immediate Keyboard True False ?s1)
       = [Cancel, Start Delayed, Cancel, Start Immediate]"
    by simp
  from main [where s = ?s3 and anchor = "HoverRangeAnchor 0 ex_word None None" and evs = ex_events]
    calls
  have hidden: "hoverOperation (snd (hide ex_hover_host ?s3))
       = [Cancel, Start Delayed, Cancel, Start Delayed, Cancel]"
    by simp
  have one: "fetchesInFlight (hoverOperation ?s3) = 1"
    by (simp add: calls fetchesInFlight_def)
  from calls one anchor1 kept replaced hidden show ?thesis by blast
qed

subsection \<open>The decision of showsOrWillShow\<close>

lemma sortByPriority_head:
  assumes "sortByPriority cands = a # rest"
  shows "a \<in> set cands \<and> (\<forall>c \<in> set cands. priority c \<le> priority a)"
proof -
  have "set (sortByPriority cands) = set cands"
    by (simp add: sortByPriority_def)
  with assms have mem: "a \<in> set cands" and sub: "set cands = insert a (set rest)"
    by auto
  have "sorted (map (\<lambda>a. - priority a) (sortByPriority cands))"
    by (simp add: sortByPriority_def)
  with assms have "\<forall>c \<in> set rest. - priority a \<le> - priority c"
    by simp
  with mem sub show ?thesis by auto
qed

lemma sortByPriority_Nil: "sortByPriority cands = [] \<longleftrightarrow> cands = []"
proof -
  have "length (sortByPriority cands) = length cands"
    by (simp add: sortByPriority_def)
  then show ?thesis by (metis length_0_conv)
qed

lemma then_do_Returns:
  "then_do m (\<lambda>s1. (Returns b, g s1)) = (Returns c, s') \<Longrightarrow> c = b"
  by (cases m; cases "fst m") auto

lemma startShowingOrUpdateHover_Some_not_False:
  "startShowingOrUpdateHover h (Some a) mode source focus mouseEvent s \<noteq> (Returns False, s')"
  by (auto simp: startShowingOrUpdateHover_def split: option.splits dest: then_do_Returns)

lemma setCurrentResult_None_visible:
  assumes "currentResult s = Some cur"
  shows "setCurrentResult h None s
           = (Returns (), s\<lparr>currentResult := None, widget := widget_hide h (widget s)\<rparr>)"
  using assms by (simp add: setCurrentResult_def sameResult_def)

lemma startShowingOrUpdateHover_None:
  "startShowingOrUpdateHover h None mode source focus mouseEvent s =
     (if widget_position h (widget s) \<noteq> None \<and> currentResult s \<noteq> None
      then (if isGettingCloser h mouseEvent s then (Returns True, s)
            else (Returns False,
                  s\<lparr>currentResult := None, widget := widget_hide h (widget s)\<rparr>))
      else (Returns False, s))"
  by (auto simp: startShowingOrUpdateHover_def setCurrentResult_None_visible split: option.splits)

lemma in_set_map_filter:
  "y \<in> set (List.map_filter f xs) \<longleftrightarrow> (\<exists>x \<in> set xs. f x = Some y)"
  by (induction xs) (auto split: option.splits)

lemma anchorCandidates_set:
  "a \<in> set (anchorCandidates s mouseEvent) \<longleftrightarrow>
     (\<exists>p \<in> set (participants s). \<exists>f. suggestHoverAnchor p = Some f \<and> f mouseEvent = Some a)
     \<or> (a = HoverRangeAnchor 0 (target_range mouseEvent)
               (Some (event_posx mouseEvent)) (Some (event_posy mouseEvent))
        \<and> (target_type mouseEvent = CONTENT_TEXT
           \<or> (target_type mouseEvent = CONTENT_EMPTY
              \<and> \<not> target_detail_isAfterLines mouseEvent
              \<and> (\<exists>d. target_detail_horizontalDistanceToText mouseEvent = Some d
                     \<and> d < option_fontInfo_typicalHalfwidthCharacterWidth (editor s) / 2))))"
  by (auto simp: anchorCandidates_def in_set_map_filter split: option.splits)

lemma startShowingOrUpdateHover_Some:
  "startShowingOrUpdateHover h (Some a) mode source focus mouseEvent s =
     (case (widget_position h (widget s), currentResult s) of
        (Some pos, Some cur) \<Rightarrow>
          if isGettingCloser h mouseEvent s
          then (Returns True, startHoverOperationIfNecessary h a mode source focus True s)
          else if anchor_equals h (result_anchor cur) a then (Returns True, s)
          else if \<not> canAdoptVisibleHover h a (result_anchor cur) pos
          then (Returns True,
                startHoverOperationIfNecessary h a mode source focus False
                  (s\<lparr>currentResult := None, widget := widget_hide h (widget s)\<rparr>))
          else if result_ref (hoverResult_filter h cur a (nextRef s)) = result_ref cur
          then (Returns True,
                startHoverOperationIfNecessary h a mode source focus False
                  (s\<lparr>nextRef := Suc (nextRef s)\<rparr>))
          else if messages (hoverResult_filter h cur a (nextRef s)) = []
          then (Returns True,
                startHoverOperationIfNecessary h a mode source focus False
                  (s\<lparr>nextRef := Suc (nextRef s), currentResult := None,
                     widget := widget_hide h (widget s)\<rparr>))
          else then_do
                 (renderHoverParts_ctl h
                    (result_anchor (hoverResult_filter h cur a (nextRef s)))
                    (messages (hoverResult_filter h cur a (nextRef s)))
                    (s\<lparr>nextRef := Suc (nextRef s),
                       currentResult := Some (hoverResult_filter h cur a (nextRef s))\<rparr>))
                 (\<lambda>s1. (Returns True,
                        startHoverOperationIfNecessary h a mode source focus False s1))
      | _ \<Rightarrow> (Returns True, startHoverOperationIfNecessary h a mode source focus False s))"
  by (auto simp: startShowingOrUpdateHover_def setCurrentResult_def sameResult_def
      split: option.splits)

text \<open>
  C3. \<open>showsOrWillShow\<close> returns true, and changes nothing, while the widget is
  resizing. Otherwise its anchor candidates are the anchors that the participants
  suggest for the mouse event, and a range anchor of priority 0 when the target is content
  text, or empty content that is not after the lines and whose distance to the text is
  below half the typical character width. With no candidate it returns false, and hides
  a visible hover, unless the hover is visible and the mouse is getting closer to it.
  With candidates it takes one of highest priority and returns true: a hover that is not
  visible is started at it (the hover operation is cancelled and started again in
  delayed mode from the mouse, and the anchor becomes the anchor of the computer, unless
  the computer is already at an equal anchor); a visible hover is kept while the mouse
  gets closer, with a new operation that insists on keeping it visible; it is left as
  it is when it shows an equal anchor; it is hidden and started anew when the anchor
  cannot adopt it; otherwise its result is filtered for the anchor, rendered again when
  the filter gave another result (hidden when that result has no messages), and a new
  operation is started. It returns false exactly when there is no candidate and the
  hover is not visible or gets hidden.
\<close>

theorem showsOrWillShow_decision:
  "(widget_isResizing h (widget s) \<longrightarrow> showsOrWillShow h mouseEvent s = (Returns True, s))
   \<and> (\<not> widget_isResizing h (widget s) \<and> anchorCandidates s mouseEvent = [] \<longrightarrow>
        showsOrWillShow h mouseEvent s =
          (if widget_position h (widget s) \<noteq> None \<and> currentResult s \<noteq> None
           then (if isGettingCloser h (Some mouseEvent) s then (Returns True, s)
                 else (Returns False,
                       s\<lparr>currentResult := None, widget := widget_hide h (widget s)\<rparr>))
           else (Returns False, s)))
   \<and> (\<not> widget_isResizing h (widget s) \<and> anchorCandidates s mouseEvent \<noteq> [] \<longrightarrow>
        (\<exists>a \<in> set (anchorCandidates s mouseEvent).
           (\<forall>c \<in> set (anchorCandidates s mouseEvent). priority c \<le> priority a)
           \<and> showsOrWillShow h mouseEvent s =
               (case (widget_position h (widget s), currentResult s) of
                  (Some pos, Some cur) \<Rightarrow>
                    if isGettingCloser h (Some mouseEvent) s
                    then (Returns True,
                          startHoverOperationIfNecessary h a Delayed Mouse False True s)
                    else if anchor_equals h (result_anchor cur) a then (Returns True, s)
                    else if \<not> canAdoptVisibleHover h a (result_anchor cur) pos
                    then (Returns True,
                          startHoverOperationIfNecessary h a Delayed Mouse False False
                            (s\<lparr>currentResult := None, widget := widget_hide h (widget s)\<rparr>))
                    else if result_ref (hoverResult_filter h cur a (nextRef s)) = result_ref cur
                    then (Returns True,
                          startHoverOperationIfNecessary h a Delayed Mouse False False
                            (s\<lparr>nextRef := Suc (nextRef s)\<rparr>))
                    else if messages (hoverResult_filter h cur a (nextRef s)) = []
                    then (Returns True,
                          startHoverOperationIfNecessary h a Delayed Mouse False False
                            (s\<lparr>nextRef := Suc (nextRef s), currentResult := None,
                               widget := widget_hide h (widget s)\<rparr>))
                    else then_do
                           (renderHoverParts_ctl h
                              (result_anchor (hoverResult_filter h cur a (nextRef s)))
                              (messages (hoverResult_filter h cur a (nextRef s)))
                              (s\<lparr>nextRef := Suc (nextRef s),
                                 currentResult :=
                                   Some (hoverResult_filter h cur a (nextRef s))\<rparr>))
                           (\<lambda>s1. (Returns True,
                                  startHoverOperationIfNecessary h a Delayed Mouse False False s1))
                | _ \<Rightarrow>
                    (Returns True,
                     startHoverOperationIfNecessary h a Delayed Mouse False False s))))
   \<and> (\<forall>a insist t.
         startHoverOperationIfNecessary h a Delayed Mouse False insist t =
           (if (case computer_anchor t of None \<Rightarrow> False | Some b \<Rightarrow> anchor_equals h b a) then t
            else t\<lparr>hoverOperation := hoverOperation t @ [Cancel, Start Delayed],
                   computer_anchor := Some a,
                   computer_shouldFocus := False,
                   computer_source := Mouse,
                   computer_insistOnKeepingHoverVisible := insist\<rparr>))
   \<and> (\<not> widget_isResizing h (widget s) \<longrightarrow>
        ((\<exists>s'. showsOrWillShow h mouseEvent s = (Returns False, s'))
           \<longleftrightarrow> anchorCandidates s mouseEvent = []
               \<and> (widget_position h (widget s) = None \<or> currentResult s = None
                  \<or> \<not> isGettingCloser h (Some mouseEvent) s)))
   \<and> (\<forall>a. a \<in> set (anchorCandidates s mouseEvent) \<longleftrightarrow>
          (\<exists>p \<in> set (participants s). \<exists>f. suggestHoverAnchor p = Some f \<and> f mouseEvent = Some a)
          \<or> (a = HoverRangeAnchor 0 (target_range mouseEvent)
                    (Some (event_posx mouseEvent)) (Some (event_posy mouseEvent))
             \<and> (target_type mouseEvent = CONTENT_TEXT
                \<or> (target_type mouseEvent = CONTENT_EMPTY
                   \<and> \<not> target_detail_isAfterLines mouseEvent
                   \<and> (\<exists>d. target_detail_horizontalDistanceToText mouseEvent = Some d
                          \<and> d < option_fontInfo_typicalHalfwidthCharacterWidth (editor s) / 2)))))"
proof (intro conjI impI allI)
  assume "widget_isResizing h (widget s)"
  then show "showsOrWillShow h mouseEvent s = (Returns True, s)"
    by (simp add: showsOrWillShow_def)
next
  assume "\<not> widget_isResizing h (widget s) \<and> anchorCandidates s mouseEvent = []"
  then show "showsOrWillShow h mouseEvent s =
          (if widget_position h (widget s) \<noteq> None \<and> currentResult s \<noteq> None
           then (if isGettingCloser h (Some mouseEvent) s then (Returns True, s)
                 else (Returns False,
                       s\<lparr>currentResult := None, widget := widget_hide h (widget s)\<rparr>))
           else (Returns False, s))"
    by (simp add: showsOrWillShow_def sortByPriority_def startShowingOrUpdateHover_None)
next
  assume a: "\<not> widget_isResizing h (widget s) \<and> anchorCandidates s mouseEvent \<noteq> []"
  then obtain a rest where srt: "sortByPriority (anchorCandidates s mouseEvent) = a # rest"
    using sortByPriority_Nil [of "anchorCandidates s mouseEvent"]
    by (cases "sortByPriority (anchorCandidates s mouseEvent)") auto
  from sortByPriority_head [OF srt]
  have mem: "a \<in> set (anchorCandidates s mouseEvent)"
    and top: "\<forall>c \<in> set (anchorCandidates s mouseEvent). priority c \<le> priority a"
    by simp_all
  from a srt have "showsOrWillShow h mouseEvent s
      = startShowingOrUpdateHover h (Some a) Delayed Mouse False (Some mouseEvent) s"
    by (simp add: showsOrWillShow_def)
  with mem top show "\<exists>a \<in> set (anchorCandidates s mouseEvent).
           (\<forall>c \<in> set (anchorCandidates s mouseEvent). priority c \<le> priority a)
           \<and> showsOrWillShow h mouseEvent s =
               (case (widget_position h (widget s), currentResult s) of
                  (Some pos, Some cur) \<Rightarrow>
                    if isGettingCloser h (Some mouseEvent) s
                    then (Returns True,
                          startHoverOperationIfNecessary h a Delayed Mouse False True s)
                    else if anchor_equals h (result_anchor cur) a then (Returns True, s)
                    else if \<not> canAdoptVisibleHover h a (result_anchor cur) pos
                    then (Returns True,
                          startHoverOperationIfNecessary h a Delayed Mouse False False
                            (s\<lparr>currentResult := None, widget := widget_hide h (widget s)\<rparr>))
                    else if result_ref (hoverResult_filter h cur a (nextRef s)) = result_ref cur
                    then (Returns True,
                          startHoverOperationIfNecessary h a Delayed Mouse False False
                            (s\<lparr>nextRef := Suc (nextRef s)\<rparr>))
                    else if messages (hoverResult_filter h cur a (nextRef s)) = []
                    then (Returns True,
                          startHoverOperationIfNecessary h a Delayed Mouse False False
                            (s\<lparr>nextRef := Suc (nextRef s), currentResult := None,
                               widget := widget_hide h (widget s)\<rparr>))
                    else then_do
                           (renderHoverParts_ctl h
                              (result_anchor (hoverResult_filter h cur a (nextRef s)))
                              (messages (hoverResult_filter h cur a (nextRef s)))
                              (s\<lparr>nextRef := Suc (nextRef s),
                                 currentResult :=
                                   Some (hoverResult_filter h cur a (nextRef s))\<rparr>))
                           (\<lambda>s1. (Returns True,
                                  startHoverOperationIfNecessary h a Delayed Mouse False False s1))
                | _ \<Rightarrow>
                    (Returns True,
                     startHoverOperationIfNecessary h a Delayed Mouse False False s))"
    by (intro bexI [of _ a]) (simp_all only: startShowingOrUpdateHover_Some simp_thms)
next
  fix a insist t
  show "startHoverOperationIfNecessary h a Delayed Mouse False insist t =
           (if (case computer_anchor t of None \<Rightarrow> False | Some b \<Rightarrow> anchor_equals h b a) then t
            else t\<lparr>hoverOperation := hoverOperation t @ [Cancel, Start Delayed],
                   computer_anchor := Some a,
                   computer_shouldFocus := False,
                   computer_source := Mouse,
                   computer_insistOnKeepingHoverVisible := insist\<rparr>)"
    by (simp add: startHoverOperationIfNecessary_def)
next
  assume nr: "\<not> widget_isResizing h (widget s)"
  show "(\<exists>s'. showsOrWillShow h mouseEvent s = (Returns False, s'))
          \<longleftrightarrow> anchorCandidates s mouseEvent = []
              \<and> (widget_position h (widget s) = None \<or> currentResult s = None
                 \<or> \<not> isGettingCloser h (Some mouseEvent) s)"
  proof (cases "sortByPriority (anchorCandidates s mouseEvent)")
    case Nil
    then have "anchorCandidates s mouseEvent = []"
      by (simp add: sortByPriority_Nil)
    with nr Nil show ?thesis
      by (auto simp: showsOrWillShow_def startShowingOrUpdateHover_None)
  next
    case (Cons a rest)
    then have "anchorCandidates s mouseEvent \<noteq> []"
      using sortByPriority_Nil [of "anchorCandidates s mouseEvent"] by auto
    with nr Cons show ?thesis
      by (simp add: showsOrWillShow_def startShowingOrUpdateHover_Some_not_False)
  qed
next
  fix a
  show "a \<in> set (anchorCandidates s mouseEvent) \<longleftrightarrow>
          (\<exists>p \<in> set (participants s). \<exists>f. suggestHoverAnchor p = Some f \<and> f mouseEvent = Some a)
          \<or> (a = HoverRangeAnchor 0 (target_range mouseEvent)
                    (Some (event_posx mouseEvent)) (Some (event_posy mouseEvent))
             \<and> (target_type mouseEvent = CONTENT_TEXT
                \<or> (target_type mouseEvent = CONTENT_EMPTY
                   \<and> \<not> target_detail_isAfterLines mouseEvent
                   \<and> (\<exists>d. target_detail_horizontalDistanceToText mouseEvent = Some d
                          \<and> d < option_fontInfo_typicalHalfwidthCharacterWidth (editor s) / 2))))"
    by (rule anchorCandidates_set)
qed

theorem showsOrWillShow_decision_witness:
  "\<not> widget_isResizing ex_hover_host (widget ex_shown)
   \<and> anchorCandidates ex_shown ex_margin = []
   \<and> widget_position ex_hover_host (widget ex_shown) \<noteq> None
   \<and> currentResult ex_shown \<noteq> None
   \<and> \<not> isGettingCloser ex_hover_host (Some ex_margin) ex_shown
   \<and> showsOrWillShow ex_hover_host ex_margin ex_shown
       = (Returns False,
          ex_shown\<lparr>currentResult := None,
                    widget := widget_hide ex_hover_host (widget ex_shown)\<rparr>)
   \<and> \<not> widget_isResizing ex_hover_host (widget ex_color_controller)
   \<and> map priority (anchorCandidates ex_color_controller (ex_mouse ex_word)) = [5, 0]
   \<and> (\<exists>a \<in> set (anchorCandidates ex_color_controller (ex_mouse ex_word)).
         priority a = 5
         \<and> showsOrWillShow ex_hover_host (ex_mouse ex_word) ex_color_controller
             = (Returns True,
                ex_color_controller
                  \<lparr>hoverOperation := [Cancel, Start Delayed],
                   computer_anchor := Some a,
                   computer_shouldFocus := False,
                   computer_source := Mouse,
                   computer_insistOnKeepingHoverVisible := False\<rparr>))
   \<and> computer_anchor (snd (showsOrWillShow ex_hover_host (ex_mouse ex_word) ex_color_controller))
       = Some (ex_color_anchor (ex_mouse ex_word))
   \<and> fst (showsOrWillShow ex_hover_host (ex_mouse ex_other_word) ex_shown) = Returns True
   \<and> hoverOperation (snd (showsOrWillShow ex_hover_host (ex_mouse ex_other_word) ex_shown))
       = [Cancel, Start Delayed, Cancel, Start Delayed]
   \<and> currentResult (snd (showsOrWillShow ex_hover_host (ex_mouse ex_other_word) ex_shown))
       = Some ex_shown_result"
proof -
  have nr: "\<not> widget_isResizing ex_hover_host (widget ex_shown)"
    "\<not> widget_isResizing ex_hover_host (widget ex_color_controller)"
    by (simp_all add: ex_hover_host_def)
  have none: "anchorCandidates ex_shown ex_margin = []"
    unfolding ex_shown_def by code_simp
  have pos: "widget ex_shown = Some \<lparr>pos_lineNumber = 2, pos_column = 5\<rparr>"
    unfolding ex_shown_def by code_simp
  have vis: "widget_position ex_hover_host (widget ex_shown) \<noteq> None"
    by (simp add: pos ex_hover_host_def)
  have cur: "currentResult ex_shown = Some ex_shown_result"
    unfolding ex_shown_def by code_simp
  have shown: "currentResult ex_shown \<noteq> None"
    by (simp add: cur)
  have far: "\<not> isGettingCloser ex_hover_host (Some ex_margin) ex_shown"
    by (simp add: isGettingCloser_def ex_hover_host_def)
  note no_candidate = showsOrWillShow_decision [of ex_hover_host ex_shown ex_margin,
      THEN conjunct2, THEN conjunct1, THEN mp, OF conjI [OF nr(1) none]]
  have hidden: "showsOrWillShow ex_hover_host ex_margin ex_shown
       = (Returns False,
          ex_shown\<lparr>currentResult := None,
                    widget := widget_hide ex_hover_host (widget ex_shown)\<rparr>)"
    unfolding no_candidate using vis shown far by simp
  have cands: "map priority (anchorCandidates ex_color_controller (ex_mouse ex_word)) = [5, 0]"
    by code_simp
  then have ne: "anchorCandidates ex_color_controller (ex_mouse ex_word) \<noteq> []"
    by auto
  have fresh: "widget_position ex_hover_host (widget ex_color_controller) = None"
    "computer_anchor ex_color_controller = None"
    "hoverOperation ex_color_controller = []"
    by (simp_all add: ex_color_controller_def constructor_def ex_hover_host_def ex_computer_def)
  note main = showsOrWillShow_decision [of ex_hover_host ex_color_controller
      "ex_mouse ex_word"]
  from main [THEN conjunct2, THEN conjunct2, THEN conjunct1, THEN mp, OF conjI [OF nr(2) ne]]
  obtain a where a: "a \<in> set (anchorCandidates ex_color_controller (ex_mouse ex_word))"
    and top: "\<forall>c \<in> set (anchorCandidates ex_color_controller (ex_mouse ex_word)).
                priority c \<le> priority a"
    and eq: "showsOrWillShow ex_hover_host (ex_mouse ex_word) ex_color_controller
             = (Returns True,
                startHoverOperationIfNecessary ex_hover_host a Delayed Mouse False False
                  ex_color_controller)"
    by (auto simp: fresh(1))
  from main [THEN conjunct2, THEN conjunct2, THEN conjunct2, THEN conjunct1, rule_format,
      of a False ex_color_controller]
  have start: "startHoverOperationIfNecessary ex_hover_host a Delayed Mouse False False
                 ex_color_controller
               = ex_color_controller
                  \<lparr>hoverOperation := [Cancel, Start Delayed],
                   computer_anchor := Some a,
                   computer_shouldFocus := False,
                   computer_source := Mouse,
                   computer_insistOnKeepingHoverVisible := False\<rparr>"
    by (simp add: fresh(2,3))
  from a have "priority a \<in> set (map priority (anchorCandidates ex_color_controller (ex_mouse ex_word)))"
    by simp
  moreover from top have "\<forall>p \<in> set (map priority (anchorCandidates ex_color_controller (ex_mouse ex_word))).
      p \<le> priority a"
    by simp
  ultimately have five: "priority a = 5"
    unfolding cands by auto
  have started: "\<exists>a \<in> set (anchorCandidates ex_color_controller (ex_mouse ex_word)).
         priority a = 5
         \<and> showsOrWillShow ex_hover_host (ex_mouse ex_word) ex_color_controller
             = (Returns True,
                ex_color_controller
                  \<lparr>hoverOperation := [Cancel, Start Delayed],
                   computer_anchor := Some a,
                   computer_shouldFocus := False,
                   computer_source := Mouse,
                   computer_insistOnKeepingHoverVisible := False\<rparr>)"
    using a five eq start by auto
  have anchor: "computer_anchor (snd (showsOrWillShow ex_hover_host (ex_mouse ex_word)
                                  ex_color_controller))
                = Some (ex_color_anchor (ex_mouse ex_word))"
    by code_simp
  have upd1: "fst (showsOrWillShow ex_hover_host (ex_mouse ex_other_word) ex_shown) = Returns True"
    unfolding ex_shown_def by code_simp
  have upd2: "hoverOperation (snd (showsOrWillShow ex_hover_host (ex_mouse ex_other_word) ex_shown))
       = [Cancel, Start Delayed, Cancel, Start Delayed]"
    unfolding ex_shown_def by code_simp
  have upd3: "currentResult (snd (showsOrWillShow ex_hover_host (ex_mouse ex_other_word) ex_shown))
       = Some ex_shown_result"
    unfolding ex_shown_def by code_simp
  from nr none vis shown far hidden cands started anchor upd1 upd2 upd3 show ?thesis
    by blast
qed

subsection \<open>The order of the rendered parts\<close>

lemma participants_then_do:
  assumes "participants (snd m) = ps" and "\<And>t. participants (snd (f t)) = participants t"
  shows "participants (snd (then_do m f)) = ps"
  using assms by (simp add: snd_then_do split: outcome.splits)

lemma participants_startShowingOrUpdateHover:
  "participants (snd (startShowingOrUpdateHover h anchor mode source focus mouseEvent s))
     = participants s"
  by (auto simp: startShowingOrUpdateHover_def startHoverOperationIfNecessary_frame
      setCurrentResult_frame split: option.splits intro!: participants_then_do)

lemma participants_handle: "participants (handle h s ev) = participants s"
  by (cases ev)
     (simp_all add: handle_def showsOrWillShow_def startShowingAtRange_def hide_def
        onResult_def onTokenizationChange_def withResult_frame setCurrentResult_frame
        participants_startShowingOrUpdateHover split: list.splits option.splits)

lemma participants_run: "participants (foldl (handle h) s evs) = participants s"
  by (induction evs arbitrary: s) (simp_all add: participants_handle)

lemma renderHoverPartsInFragment_statusBar:
  "renderedParts (snd (renderHoverPartsInFragment hps s))
     = concat (map (participantEntries hps) (participants s))
       @ (if fst (snd (snd (renderHoverPartsWithContext s hps))) = 0 then []
          else [RenderedHoverStatusBar (Some StatusBarElement)])"
proof -
  obtain r f a c where w: "renderHoverPartsWithContext s hps = (r, f, a, c)"
    by (cases "renderHoverPartsWithContext s hps") auto
  from render_fold_entries [of hps "[]" "[]" 0 "colorWidget s" "participants s"] w
  have r: "r = concat (map (participantEntries hps) (participants s))"
    by (simp add: renderHoverPartsWithContext_def)
  show ?thesis
    by (cases "a = 0") (simp_all add: renderHoverPartsInFragment_def w r)
qed

text \<open>
  C6. The constructor sorts the participants by \<open>hoverOrdinal\<close> (a stable sort of the
  instances), so the list is in ascending order, and no event changes it. Whatever
  events the controller has handled, its rendered parts are in order: hover parts in
  ascending \<open>hoverOrdinal\<close> of their participants, then at most one status bar. A render
  pass over any hover parts goes through the participants in list order: it yields the
  entries of the first participant, then those of the second and so on, and the status
  bar last when an action was added to it.
\<close>

theorem rendered_parts_in_hoverOrdinal_order:
  "participants (constructor ed w instances computer) = sort_key hoverOrdinal instances
   \<and> sorted (map hoverOrdinal (participants (constructor ed w instances computer)))
   \<and> participants (foldl (handle h) (constructor ed w instances computer) evs)
       = participants (constructor ed w instances computer)
   \<and> renderedInOrder (renderedParts (foldl (handle h) (constructor ed w instances computer) evs))
   \<and> renderedParts
        (snd (renderHoverPartsInFragment hoverParts
                (foldl (handle h) (constructor ed w instances computer) evs)))
       = concat (map (participantEntries hoverParts) (sort_key hoverOrdinal instances))
         @ (if fst (snd (snd (renderHoverPartsWithContext
                                (foldl (handle h) (constructor ed w instances computer) evs) hoverParts))) = 0
            then [] else [RenderedHoverStatusBar (Some StatusBarElement)])
   \<and> renderedInOrder
        (renderedParts
           (snd (renderHoverPartsInFragment hoverParts
                   (foldl (handle h) (constructor ed w instances computer) evs))))"
proof -
  let ?init = "constructor ed w instances computer"
  let ?s = "foldl (handle h) ?init evs"
  have p0: "participants ?init = sort_key hoverOrdinal instances"
    by (simp add: constructor_def)
  have srt: "sorted (map hoverOrdinal (participants ?init))"
    by (simp add: p0)
  have ps: "participants ?s = participants ?init"
    by (rule participants_run)
  have ord: "ordered ?s"
    by (rule ordered_run) (rule ordered_constructor)
  have parts: "renderedParts (snd (renderHoverPartsInFragment hoverParts ?s))
       = concat (map (participantEntries hoverParts) (sort_key hoverOrdinal instances))
         @ (if fst (snd (snd (renderHoverPartsWithContext ?s hoverParts))) = 0
            then [] else [RenderedHoverStatusBar (Some StatusBarElement)])"
    by (simp add: renderHoverPartsInFragment_statusBar ps p0)
  have "renderedInOrder
          (concat (map (participantEntries hoverParts) (sort_key hoverOrdinal instances))
           @ (if fst (snd (snd (renderHoverPartsWithContext ?s hoverParts))) = 0
              then [] else [RenderedHoverStatusBar (Some StatusBarElement)]))"
    by (rule renderedInOrder_entries [where e = "Some StatusBarElement"]) simp_all
  with parts have again: "renderedInOrder
      (renderedParts (snd (renderHoverPartsInFragment hoverParts ?s)))"
    by simp
  from p0 srt ps ord parts again show ?thesis
    by (simp add: ordered_def)
qed

theorem rendered_parts_in_hoverOrdinal_order_witness:
  "map participant_id (participants ex_color_controller) = [1, 2, 0]
   \<and> map hoverOrdinal (participants ex_color_controller) = [1, 2, 3]
   \<and> renderedInOrder (renderedParts (foldl (handle ex_hover_host) ex_color_controller ex_events))
   \<and> map (\<lambda>rp. case rp of
                  RenderedHoverPart e hp p \<Rightarrow> (e, Some (participant_id p, hoverOrdinal p))
                | RenderedHoverStatusBar e \<Rightarrow> (e, None))
        (renderedParts (foldl (handle ex_hover_host) ex_color_controller ex_events))
       = [(Some (Node 200), Some (1, 1)), (Some (Node 100), Some (0, 3)),
          (Some (Node 101), Some (0, 3)), (Some StatusBarElement, None)]"
proof -
  note main = rendered_parts_in_hoverOrdinal_order
      [of ex_editor None "[ex_markdown, ex_color, ex_marker]" ex_computer ex_hover_host
        ex_events "[]"]
  have ids: "map participant_id (participants ex_color_controller) = [1, 2, 0]"
    by code_simp
  have ords: "map hoverOrdinal (participants ex_color_controller) = [1, 2, 3]"
    by code_simp
  from main have ord:
    "renderedInOrder (renderedParts (foldl (handle ex_hover_host) ex_color_controller ex_events))"
    by (simp add: ex_color_controller_def)
  have parts: "map (\<lambda>rp. case rp of
                  RenderedHoverPart e hp p \<Rightarrow> (e, Some (participant_id p, hoverOrdinal p))
                | RenderedHoverStatusBar e \<Rightarrow> (e, None))
        (renderedParts (foldl (handle ex_hover_host) ex_color_controller ex_events))
       = [(Some (Node 200), Some (1, 1)), (Some (Node 100), Some (0, 3)),
          (Some (Node 101), Some (0, 3)), (Some StatusBarElement, None)]"
    by code_simp
  from ids ords ord parts show ?thesis by blast
qed

section \<open>The stripped line\<close>

lemma js_substring2_nat:
  assumes "0 \<le> a" "a \<le> b" "b \<le> int (length s)"
  shows "js_substring2 s a b = take (nat b - nat a) (drop (nat a) s)"
  using assms by (simp add: js_substring2_def js_clamp_def Let_def min_def max_def nat_diff_distrib)

lemma js_substring2_0:
  assumes "0 \<le> k"
  shows "js_substring2 s 0 k = take (nat k) s"
  using assms by (auto simp: js_substring2_def js_clamp_def Let_def min_def max_def)

lemma js_substring1_nat:
  assumes "0 \<le> k"
  shows "js_substring1 s k = drop (nat k) s"
  using assms
  by (auto simp: js_substring1_def js_substring2_def js_clamp_def Let_def min_def max_def
      nat_diff_distrib)

lemma js_substr2_0:
  assumes "0 \<le> k"
  shows "js_substr2 s 0 k = take (nat k) s"
  using assms by (auto simp: js_substr2_def js_substr_start_def Let_def min_def max_def)

lemma js_substr1_nat:
  assumes "0 \<le> k"
  shows "js_substr1 s k = drop (nat k) s"
  using assms by (auto simp: js_substr1_def js_substr_start_def min_def)

lemma length_js_replace_single:
  "length pat = 1 \<Longrightarrow> length (js_replace pat ''_'' s) = length s"
  by (induction s) auto

lemma length_replaceBrackets_single:
  "list_all (\<lambda>b. length b = 1) bs \<Longrightarrow> length (replaceBrackets bs s) = length s"
  unfolding replaceBrackets_def
  by (induction bs arbitrary: s) (simp_all add: length_js_replace_single)

lemma length_claimedPiece:
  assumes "singleCharacterBrackets brs"
    and "getStandardTokenType tokens i = String \<or> getStandardTokenType tokens i = RegEx"
  shows "length (claimedPiece brs lineStr tokens i)
         = length (js_substring2 lineStr (getStartOffset tokens i) (getEndOffset tokens i))"
  using assms
  by (auto simp: claimedPiece_def singleCharacterBrackets_def Let_def
      length_replaceBrackets_single split: option.splits)

lemma split3:
  assumes "P \<le> S" "S \<le> E"
  shows "take (S - P) (drop P xs) @ take (E - S) (drop S xs) @ drop E xs = drop P (xs :: 'a list)"
proof -
  have e: "drop E xs = drop (E - S) (drop S xs)"
    using assms by simp
  have s: "drop S xs = drop (S - P) (drop P xs)"
    using assms by simp
  have "take (E - S) (drop S xs) @ drop E xs = drop S xs"
    unfolding e by (rule append_take_drop_id)
  then have "take (S - P) (drop P xs) @ take (E - S) (drop S xs) @ drop E xs
               = take (S - P) (drop P xs) @ drop (S - P) (drop P xs)"
    unfolding s [symmetric] by simp
  then show ?thesis
    by (simp only: append_take_drop_id)
qed

lemma stripToken_step:
  assumes "0 \<le> pos"
    and "pos \<le> getStartOffset tokens i"
    and "getStartOffset tokens i \<le> getEndOffset tokens i"
    and "getEndOffset tokens i \<le> int (length lineStr)"
    and "singleCharacterBrackets brs"
  shows "stripToken brs lineStr tokens
           (out @ drop (nat pos) lineStr, int (length out) - pos) i
         = ((out @ js_substring2 lineStr pos (getStartOffset tokens i)
                 @ claimedPiece brs lineStr tokens i)
              @ drop (nat (getEndOffset tokens i)) lineStr,
            int (length (out @ js_substring2 lineStr pos (getStartOffset tokens i)
                           @ claimedPiece brs lineStr tokens i))
              - getEndOffset tokens i)"
proof -
  let ?s = "getStartOffset tokens i" and ?e = "getEndOffset tokens i"
  let ?res = "out @ drop (nat pos) lineStr" and ?offset = "int (length out) - pos"
  let ?gap = "js_substring2 lineStr pos ?s"
  let ?text = "js_substring2 lineStr ?s ?e"
  from assms have bounds: "0 \<le> ?s" "0 \<le> ?e" "pos \<le> ?e" "pos \<le> int (length lineStr)"
    "?s \<le> int (length lineStr)"
    by linarith+
  have gap: "?gap = take (nat ?s - nat pos) (drop (nat pos) lineStr)"
    using assms bounds by (simp add: js_substring2_nat)
  have gap_len: "int (length ?gap) = ?s - pos"
    using assms bounds by (simp add: gap)
  have seg: "?text = take (nat ?e - nat ?s) (drop (nat ?s) lineStr)"
    using assms bounds by (simp add: js_substring2_nat)
  have text_len: "int (length ?text) = ?e - ?s"
    using assms bounds by (simp add: seg)
  have off_s: "0 \<le> ?offset + ?s" "nat (?offset + ?s) = length out + (nat ?s - nat pos)"
    using assms bounds by simp_all
  have off_e: "0 \<le> ?offset + ?e" "nat (?offset + ?e) = length out + (nat ?e - nat pos)"
    using assms bounds by simp_all
  have head: "take (nat (?offset + ?s)) ?res = out @ ?gap"
    by (simp add: off_s gap)
  have tail: "drop (nat (?offset + ?e)) ?res = drop (nat ?e) lineStr"
    using assms bounds by (simp add: off_e)
  have PSE: "nat pos \<le> nat ?s" "nat ?s \<le> nat ?e" "nat ?e \<le> length lineStr"
    using assms bounds by simp_all
  have join: "?gap @ ?text @ drop (nat ?e) lineStr = drop (nat pos) lineStr"
    unfolding gap seg by (rule split3 [OF PSE(1) PSE(2)])
  show ?thesis
  proof (cases "getStandardTokenType tokens i")
    case Comment
    have piece: "claimedPiece brs lineStr tokens i = []"
      by (simp add: claimedPiece_def Comment)
    have "stripToken brs lineStr tokens (?res, ?offset) i
            = (take (nat (?offset + ?s)) ?res @ drop (nat (?offset + ?e)) ?res,
               ?offset + (?s - ?e))"
      by (simp add: stripToken_def Comment Let_def js_substr2_0 [OF off_s(1)]
          js_substr1_nat [OF off_e(1)])
    then show ?thesis
      using gap_len by (simp only: head tail piece) simp
  next
    case Other
    have piece: "claimedPiece brs lineStr tokens i = ?text"
      by (simp add: claimedPiece_def Other)
    have "stripToken brs lineStr tokens (?res, ?offset) i = (?res, ?offset)"
      by (simp add: stripToken_def Other Let_def)
    then show ?thesis
      using gap_len text_len join by (simp add: piece)
  next
    case String
    then have ty: "getStandardTokenType tokens i = String \<or> getStandardTokenType tokens i = RegEx"
      by simp
    have same: "length (claimedPiece brs lineStr tokens i) = length ?text"
      using length_claimedPiece [OF assms(5) ty] .
    have "stripToken brs lineStr tokens (?res, ?offset) i
            = (take (nat (?offset + ?s)) ?res @ claimedPiece brs lineStr tokens i
                 @ drop (nat (?offset + ?e)) ?res,
               ?offset)"
      using same
      by (simp add: stripToken_def String Let_def claimedPiece_def js_substring2_0 [OF off_s(1)]
          js_substring1_nat [OF off_e(1)])
    then show ?thesis
      using gap_len text_len same by (simp only: head tail) simp
  next
    case RegEx
    then have ty: "getStandardTokenType tokens i = String \<or> getStandardTokenType tokens i = RegEx"
      by simp
    have same: "length (claimedPiece brs lineStr tokens i) = length ?text"
      using length_claimedPiece [OF assms(5) ty] .
    have "stripToken brs lineStr tokens (?res, ?offset) i
            = (take (nat (?offset + ?s)) ?res @ claimedPiece brs lineStr tokens i
                 @ drop (nat (?offset + ?e)) ?res,
               ?offset)"
      using same
      by (simp add: stripToken_def RegEx Let_def claimedPiece_def js_substring2_0 [OF off_s(1)]
          js_substring1_nat [OF off_e(1)])
    then show ?thesis
      using gap_len text_len same by (simp only: head tail) simp
  qed
qed

lemma stripToken_fold:
  assumes "0 \<le> pos"
    and "tokensInOrder tokens lineStr pos is"
    and "singleCharacterBrackets brs"
  shows "fst (foldl (stripToken brs lineStr tokens)
                (out @ drop (nat pos) lineStr, int (length out) - pos) is)
         = out @ claimedFrom brs lineStr tokens pos is"
  using assms(1,2)
proof (induction "is" arbitrary: pos out)
  case Nil
  then show ?case
    by (simp add: js_substring1_nat)
next
  case (Cons i rest)
  let ?e = "getEndOffset tokens i"
  let ?out = "out @ js_substring2 lineStr pos (getStartOffset tokens i)
                @ claimedPiece brs lineStr tokens i"
  from Cons.prems have ord: "pos \<le> getStartOffset tokens i"
    "getStartOffset tokens i \<le> ?e" "?e \<le> int (length lineStr)"
    "tokensInOrder tokens lineStr ?e rest"
    by simp_all
  with Cons.prems(1) have e0: "0 \<le> ?e"
    by linarith
  have step: "stripToken brs lineStr tokens
                (out @ drop (nat pos) lineStr, int (length out) - pos) i
              = (?out @ drop (nat ?e) lineStr, int (length ?out) - ?e)"
    by (rule stripToken_step [OF Cons.prems(1) ord(1) ord(2) ord(3) assms(3)])
  have "fst (foldl (stripToken brs lineStr tokens)
               (out @ drop (nat pos) lineStr, int (length out) - pos) (i # rest))
        = fst (foldl (stripToken brs lineStr tokens)
                 (?out @ drop (nat ?e) lineStr, int (length ?out) - ?e) rest)"
    by (simp only: foldl_Cons step)
  also have "\<dots> = ?out @ claimedFrom brs lineStr tokens ?e rest"
    by (rule Cons.IH [OF e0 ord(4)])
  finally show ?case
    by simp
qed

lemma getStrippedLine_as_claimed:
  assumes "tokensInOrder tokens lineStr 0 [0..<getCount tokens]"
    and "singleCharacterBrackets (brackets (lcs langId))"
  shows "getStrippedLineForLineAndTokens lcs langId lineStr tokens
         = strippedLineAsClaimed lcs langId lineStr tokens"
  using stripToken_fold [of 0 tokens lineStr "[0..<getCount tokens]" "brackets (lcs langId)" "[]"]
    assms
  by (simp add: getStrippedLineForLineAndTokens_def strippedLineAsClaimed_def)

lemma getStrippedLine_as_claimed_example:
  "tokensInOrder (ex_regex_tokens 5 7) ''/{{}/ {'' 0 [0..<getCount (ex_regex_tokens 5 7)]
   \<and> singleCharacterBrackets (brackets (ex_lcs ''ts''))
   \<and> getStrippedLineForLineAndTokens ex_lcs ''ts'' ''/{{}/ {'' (ex_regex_tokens 5 7) = ''/_{_/ {''"
proof -
  have ord: "tokensInOrder (ex_regex_tokens 5 7) ''/{{}/ {'' 0 [0..<getCount (ex_regex_tokens 5 7)]"
    by code_simp
  have single: "singleCharacterBrackets (brackets (ex_lcs ''ts''))"
    by code_simp
  have "strippedLineAsClaimed ex_lcs ''ts'' ''/{{}/ {'' (ex_regex_tokens 5 7) = ''/_{_/ {''"
    by code_simp
  with getStrippedLine_as_claimed [where lcs = ex_lcs and langId = "''ts''", OF ord single]
    ord single show ?thesis
    by simp
qed

text \<open>
  C10. By the specification \<open>getStrippedLineForLineAndTokens\<close> removes the text of the
  Comment tokens, replaces in every String or RegEx token the first occurrence of each
  configured bracket text by \<open>'_'\<close>, and keeps all other characters of the line in their
  order. For tokens in order and brackets of one character the function does so
  (\<open>getStrippedLine_as_claimed\<close>). It does not for longer brackets: with the brackets
  \<open>begin\<close> and \<open>end\<close>, the line \<open>/begin/ x\<close> and a RegEx token over its first seven
  characters, the described result is \<open>/_/ x\<close>, and the function answers \<open>/beg/_/\<close>. It
  keeps three characters of the replaced bracket and loses the text after the token.
\<close>

theorem getStrippedLine_multi_character_bracket:
  "getStrippedLineForLineAndTokens ex_pascal_lcs ''pascal'' ''/begin/ x'' (ex_regex_tokens 7 9)
     = ''/beg/_/''
   \<and> strippedLineAsClaimed ex_pascal_lcs ''pascal'' ''/begin/ x'' (ex_regex_tokens 7 9)
       = ''/_/ x''
   \<and> tokensInOrder (ex_regex_tokens 7 9) ''/begin/ x'' 0 [0..<getCount (ex_regex_tokens 7 9)]"
proof (intro conjI)
  show "getStrippedLineForLineAndTokens ex_pascal_lcs ''pascal'' ''/begin/ x''
          (ex_regex_tokens 7 9) = ''/beg/_/''"
    by code_simp
  show "strippedLineAsClaimed ex_pascal_lcs ''pascal'' ''/begin/ x'' (ex_regex_tokens 7 9)
          = ''/_/ x''"
    by code_simp
  show "tokensInOrder (ex_regex_tokens 7 9) ''/begin/ x'' 0 [0..<getCount (ex_regex_tokens 7 9)]"
    by code_simp
qed

end
